theory Spec2Isabelle
  imports Complex_Main "HOL-Library.AList"
begin

section \<open>Python values\<close>

text \<open>
  The checker is one Python function, \<open>test_api\<close>, and the loop of \<open>main\<close> around it.
  A Python \<open>str\<close> is modelled as a \<open>string\<close>: a list of 8-bit characters, read as the code
  points U+0000 to U+00FF, so \<open>length\<close> is Python's \<open>len\<close>. A value decoded by
  \<open>json.loads\<close> is a \<open>json\<close>: \<open>JNull\<close> is Python's \<open>None\<close>, a float is the rational it
  denotes (or one of the three special values), and an object is an association list
  read by \<open>map_of\<close>, in insertion order.
\<close>

datatype pyfloat = Finite rat | Infinity | NegInfinity | NaN

datatype json =
    JNull
  | JBool bool
  | JInt int
  | JFloat pyfloat
  | JStr string
  | JArr "json list"
  | JObj "(string \<times> json) list"

text \<open>
  Exceptions raised while a response is read or classified. Each carries its message,
  the text \<open>str(e)\<close> gives.
\<close>

datatype py_exception =
    AttributeError string
  | TypeError string
  | KeyError string
  | Exception string

fun str_exc :: "py_exception \<Rightarrow> string" where
  "str_exc (AttributeError m) = m"
| "str_exc (TypeError m) = m"
| "str_exc (KeyError m) = m"
| "str_exc (Exception m) = m"

text \<open>\<open>bool(v)\<close>: what \<open>or\<close> tests.\<close>

fun truthy :: "json \<Rightarrow> bool" where
  "truthy JNull = False"
| "truthy (JBool b) = b"
| "truthy (JInt n) = (n \<noteq> 0)"
| "truthy (JFloat f) = (f \<noteq> Finite 0)"
| "truthy (JStr s) = (s \<noteq> [])"
| "truthy (JArr vs) = (vs \<noteq> [])"
| "truthy (JObj kv) = (kv \<noteq> [])"

text \<open>\<open>type(v).__name__\<close>, as it stands in the message of an \<open>AttributeError\<close>.\<close>

fun type_name :: "json \<Rightarrow> string" where
  "type_name JNull = ''NoneType''"
| "type_name (JBool b) = ''bool''"
| "type_name (JInt n) = ''int''"
| "type_name (JFloat f) = ''float''"
| "type_name (JStr s) = ''str''"
| "type_name (JArr vs) = ''list''"
| "type_name (JObj kv) = ''dict''"

definition no_attribute :: "json \<Rightarrow> string \<Rightarrow> py_exception" where
  "no_attribute v attr =
     AttributeError ([CHR 0x27] @ type_name v @ [CHR 0x27] @ '' object has no attribute ''
       @ [CHR 0x27] @ attr @ [CHR 0x27])"

text \<open>\<open>v == n\<close> for an integer \<open>n\<close>: numbers compare by value, \<open>True\<close> is 1.\<close>

fun py_eq_int :: "json \<Rightarrow> int \<Rightarrow> bool" where
  "py_eq_int (JInt m) n = (m = n)"
| "py_eq_int (JFloat (Finite r)) n = (r = of_int n)"
| "py_eq_int (JBool b) n = ((if b then 1 else 0) = n)"
| "py_eq_int v n = False"

text \<open>\<open>obj.get(key, dflt)\<close>: only a dict has the method.\<close>

definition json_get :: "json \<Rightarrow> string \<Rightarrow> json \<Rightarrow> py_exception + json" where
  "json_get obj key dflt =
     (case obj of
        JObj kv \<Rightarrow> Inr (case map_of kv key of None \<Rightarrow> dflt | Some v \<Rightarrow> v)
      | _ \<Rightarrow> Inl (no_attribute obj ''get''))"

text \<open>\<open>sub in s\<close> on two strings: \<open>sub\<close> occurs in \<open>s\<close> as a contiguous run.\<close>

fun contains :: "string \<Rightarrow> string \<Rightarrow> bool" where
  "contains sub [] = (sub = [])"
| "contains sub (c # cs) = (take (length sub) (c # cs) = sub \<or> contains sub cs)"

text \<open>
  \<open>x in c\<close> for a string \<open>x\<close>: a substring test on a string, membership in a list, a key
  test on a dict, and a \<open>TypeError\<close> on anything else.
\<close>

definition py_in :: "string \<Rightarrow> json \<Rightarrow> py_exception + bool" where
  "py_in x c =
     (case c of
        JStr s \<Rightarrow> Inr (contains x s)
      | JArr vs \<Rightarrow> Inr (JStr x \<in> set vs)
      | JObj kv \<Rightarrow> Inr (map_of kv x \<noteq> None)
      | _ \<Rightarrow> Inl (TypeError (''argument of type '' @ [CHR 0x27] @ type_name c @ [CHR 0x27]
                 @ '' is not iterable'')))"

text \<open>\<open>obj[key]\<close> for a string key.\<close>

definition py_getitem :: "json \<Rightarrow> string \<Rightarrow> py_exception + json" where
  "py_getitem obj key =
     (case obj of
        JObj kv \<Rightarrow> (case map_of kv key of
                     None \<Rightarrow> Inl (KeyError ([CHR 0x27] @ key @ [CHR 0x27]))
                   | Some v \<Rightarrow> Inr v)
      | JStr s \<Rightarrow> Inl (TypeError ''string indices must be integers'')
      | JArr vs \<Rightarrow> Inl (TypeError ''list indices must be integers or slices, not str'')
      | _ \<Rightarrow> Inl (TypeError ([CHR 0x27] @ type_name obj @ [CHR 0x27]
                 @ '' object is not subscriptable'')))"

subsection \<open>\<open>str.lower\<close>\<close>

text \<open>
  On the code points U+0000 to U+00FF, \<open>str.lower\<close> changes the letters A to Z and the
  capital letters of Latin-1 (U+00C0 to U+00DE but the multiplication sign U+00D7), each
  to the code point 32 above it.
\<close>

definition upper_chars :: "char list" where
  "upper_chars = ''ABCDEFGHIJKLMNOPQRSTUVWXYZ'' @
     [CHR 0xC0, CHR 0xC1, CHR 0xC2, CHR 0xC3, CHR 0xC4, CHR 0xC5, CHR 0xC6, CHR 0xC7,
      CHR 0xC8, CHR 0xC9, CHR 0xCA, CHR 0xCB, CHR 0xCC, CHR 0xCD, CHR 0xCE, CHR 0xCF,
      CHR 0xD0, CHR 0xD1, CHR 0xD2, CHR 0xD3, CHR 0xD4, CHR 0xD5, CHR 0xD6,
      CHR 0xD8, CHR 0xD9, CHR 0xDA, CHR 0xDB, CHR 0xDC, CHR 0xDD, CHR 0xDE]"

definition lower_chars :: "char list" where
  "lower_chars = ''abcdefghijklmnopqrstuvwxyz'' @
     [CHR 0xE0, CHR 0xE1, CHR 0xE2, CHR 0xE3, CHR 0xE4, CHR 0xE5, CHR 0xE6, CHR 0xE7,
      CHR 0xE8, CHR 0xE9, CHR 0xEA, CHR 0xEB, CHR 0xEC, CHR 0xED, CHR 0xEE, CHR 0xEF,
      CHR 0xF0, CHR 0xF1, CHR 0xF2, CHR 0xF3, CHR 0xF4, CHR 0xF5, CHR 0xF6,
      CHR 0xF8, CHR 0xF9, CHR 0xFA, CHR 0xFB, CHR 0xFC, CHR 0xFD, CHR 0xFE]"

definition lower_char :: "char \<Rightarrow> char" where
  "lower_char c = (case map_of (zip upper_chars lower_chars) c of None \<Rightarrow> c | Some l \<Rightarrow> l)"

definition lower :: "string \<Rightarrow> string" where
  "lower s = map lower_char s"

subsection \<open>\<open>urllib.parse.urlencode\<close> and \<open>str(n)\<close>\<close>

text \<open>
  \<open>urlencode\<close> of a dict of strings joins \<open>quote_plus(k)=quote_plus(v)\<close> with \<open>&\<close>.
  \<open>quote_plus\<close> keeps letters, digits and \<open>_.-~\<close>, writes a space as \<open>+\<close>, and writes every
  other character as the bytes of its UTF-8 encoding, each as \<open>%\<close> and two upper-case
  hexadecimal digits.
\<close>

definition always_safe :: "char list" where
  "always_safe =
     ''ABCDEFGHIJKLMNOPQRSTUVWXYZabcdefghijklmnopqrstuvwxyz0123456789_.-~''"

definition percent_encode :: "nat \<Rightarrow> string" where
  "percent_encode b =
     [CHR ''%'', ''0123456789ABCDEF'' ! (b div 16), ''0123456789ABCDEF'' ! (b mod 16)]"

definition utf8_bytes :: "char \<Rightarrow> nat list" where
  "utf8_bytes c =
     (let n = (of_char c :: nat) in if n < 128 then [n] else [192 + n div 64, 128 + n mod 64])"

definition quote_plus_char :: "char \<Rightarrow> string" where
  "quote_plus_char c =
     (if c = CHR '' '' then ''+''
      else if c \<in> set always_safe then [c]
      else concat (map percent_encode (utf8_bytes c)))"

definition quote_plus :: "string \<Rightarrow> string" where
  "quote_plus s = concat (map quote_plus_char s)"

fun join_amp :: "string list \<Rightarrow> string" where
  "join_amp [] = []"
| "join_amp [s] = s"
| "join_amp (s # t # ss) = s @ ''&'' @ join_amp (t # ss)"

definition urlencode :: "(string \<times> string) list \<Rightarrow> string" where
  "urlencode query = join_amp (map (\<lambda>(k, v). quote_plus k @ ''='' @ quote_plus v) query)"

fun str_nat :: "nat \<Rightarrow> string" where
  "str_nat n =
     (if n < 10 then [''0123456789'' ! n]
      else str_nat (n div 10) @ [''0123456789'' ! (n mod 10)])"

declare str_nat.simps [simp del]

section \<open>Classification of a decoded body\<close>

text \<open>Lines 264 to 266: \<open>a or b or c or ""\<close> evaluates left to right and stops at the first
  truthy value.\<close>

definition extract_error_msg :: "json \<Rightarrow> py_exception + json" where
  "extract_error_msg json_response =
     (case json_get json_response ''error_message'' JNull of
        Inl ex \<Rightarrow> Inl ex
      | Inr a \<Rightarrow>
          if truthy a then Inr a
          else (case json_get json_response ''errorMessage'' JNull of
                  Inl ex \<Rightarrow> Inl ex
                | Inr b \<Rightarrow>
                    if truthy b then Inr b
                    else (case json_get json_response ''error'' (JObj []) of
                            Inl ex \<Rightarrow> Inl ex
                          | Inr err \<Rightarrow>
                              (case json_get err ''message'' JNull of
                                 Inl ex \<Rightarrow> Inl ex
                               | Inr c \<Rightarrow> if truthy c then Inr c else Inr (JStr [])))))"

definition denial_phrases :: "string list" where
  "denial_phrases =
     [''not authorized'',
      ''not enabled'',
      ''enable billing'',
      ''api key not valid'',
      ''invalid api key'',
      ''permission denied'',
      ''access denied'',
      ''has not been used in project'',
      ''api is not enabled'']"

text \<open>Line 284: \<open>"error" in json_response and json_response["error"].get("code") in (401, 403)\<close>.\<close>

definition has_denied_code :: "json \<Rightarrow> py_exception + bool" where
  "has_denied_code json_response =
     (case py_in ''error'' json_response of
        Inl ex \<Rightarrow> Inl ex
      | Inr False \<Rightarrow> Inr False
      | Inr True \<Rightarrow>
          (case py_getitem json_response ''error'' of
             Inl ex \<Rightarrow> Inl ex
           | Inr err \<Rightarrow>
               (case json_get err ''code'' JNull of
                  Inl ex \<Rightarrow> Inl ex
                | Inr code \<Rightarrow> Inr (py_eq_int code 401 \<or> py_eq_int code 403))))"

text \<open>
  Lines 264 to 305: the classification of a decoded 2xx body. The value is the pair
  written to \<open>result["accessible"]\<close> and \<open>result["error"]\<close> (the last rule leaves the
  error at \<open>None\<close>), or the exception that leaves the block.
\<close>

definition classify :: "json \<Rightarrow> py_exception + (bool \<times> string option)" where
  "classify json_response =
     (case extract_error_msg json_response of
        Inl ex \<Rightarrow> Inl ex
      | Inr error_msg \<Rightarrow>
          (case json_get json_response ''status'' (JStr []) of
             Inl ex \<Rightarrow> Inl ex
           | Inr status \<Rightarrow>
               (case error_msg of
                  JStr msg \<Rightarrow>
                    (let is_denied = list_ex (\<lambda>phrase. contains phrase (lower msg)) denial_phrases
                     in case has_denied_code json_response of
                          Inl ex \<Rightarrow> Inl ex
                        | Inr code_denied \<Rightarrow>
                            Inr (if code_denied
                                 then (False, Some (if msg \<noteq> [] then msg else ''Access denied''))
                                 else if status = JStr ''REQUEST_DENIED'' \<and> is_denied
                                 then (False, Some (if msg \<noteq> [] then msg else ''Request denied''))
                                 else if status = JStr ''OVER_QUERY_LIMIT''
                                       \<or> status = JStr ''RESOURCE_EXHAUSTED''
                                 then (True, Some (''Rate limited (but key has access): '' @ msg))
                                 else if status = JStr ''REQUEST_DENIED'' \<and> \<not> is_denied
                                 then (True,
                                       Some (''Possibly accessible (unclear denial): '' @ msg))
                                 else if is_denied then (False, Some msg)
                                 else (True, None)))
                | _ \<Rightarrow> Inl (no_attribute error_msg ''lower''))))"

text \<open>
  Lines 330 to 342: the diagnostic of an HTTP error whose body decoded to \<open>error_json\<close>;
  \<open>str_e\<close> is \<open>str(e)\<close>.
\<close>

definition http_error_diagnostic :: "json \<Rightarrow> string \<Rightarrow> py_exception + string" where
  "http_error_diagnostic error_json str_e =
     (case py_in ''error'' error_json of
        Inl ex \<Rightarrow> Inl ex
      | Inr False \<Rightarrow> Inr str_e
      | Inr True \<Rightarrow>
          (case py_getitem error_json ''error'' of
             Inl ex \<Rightarrow> Inl ex
           | Inr err \<Rightarrow>
               (case json_get err ''message'' (JStr str_e) of
                  Inl ex \<Rightarrow> Inl ex
                | Inr error_msg \<Rightarrow>
                    (case py_in ''has not been used'' error_msg of
                       Inl ex \<Rightarrow> Inl ex
                     | Inr True \<Rightarrow> Inr ''API not enabled for this project''
                     | Inr False \<Rightarrow>
                         (case py_in ''is not enabled'' error_msg of
                            Inl ex \<Rightarrow> Inl ex
                          | Inr True \<Rightarrow> Inr ''API not enabled for this project''
                          | Inr False \<Rightarrow>
                              (case py_in ''API key not valid'' error_msg of
                                 Inl ex \<Rightarrow> Inl ex
                               | Inr True \<Rightarrow> Inr ''Invalid API key''
                               | Inr False \<Rightarrow>
                                   (case error_msg of
                                      JStr msg \<Rightarrow>
                                        Inr (if contains ''invalid'' (lower msg)
                                             then ''Invalid API key''
                                             else if contains ''denied'' (lower msg)
                                             then ''Access denied''
                                             else msg)
                                    | _ \<Rightarrow> Inl (no_attribute error_msg ''lower''))))))))"

section \<open>The probe: \<open>test_api\<close>\<close>

text \<open>An entry of \<open>GOOGLE_APIS\<close>. The keys read with \<open>.get\<close> may be absent.\<close>

record api_info =
  api_name :: string
  api_url :: string
  api_params :: "(string \<times> string) list option"
  api_method :: "string option"
  api_body :: "json option"
  api_paid :: bool
  api_cost_info :: string

text \<open>The dict \<open>test_api\<close> returns, and the two traces it holds in verbose mode.\<close>

record request_trace =
  req_method :: string
  req_url :: string
  req_body :: json

record response_trace =
  resp_status_code :: int
  resp_headers :: "(string \<times> string) list"
  resp_body :: json

record result =
  name :: string
  accessible :: bool
  paid :: bool
  cost_info :: string
  status :: "int option"
  error :: "string option"
  request :: "request_trace option"
  response :: "response_trace option"

text \<open>
  What the network did with the one request of a probe; the model takes it as an input.
  \<^item> \<open>Response st hdrs rd\<close>: \<open>urlopen\<close> returned a response with status \<open>st\<close> and
    headers \<open>hdrs\<close>; \<open>rd\<close> is what \<open>response.read().decode('utf-8')\<close> did: the text, or
    the exception it raised.
  \<^item> \<open>HTTPError code str_e hdrs rd\<close>: \<open>urlopen\<close> raised \<open>HTTPError\<close> (a status outside
    2xx); \<open>str_e\<close> is \<open>str(e)\<close>, \<open>rd\<close> is what \<open>e.read().decode('utf-8')\<close> did.
  \<^item> \<open>URLError reason\<close>: \<open>urlopen\<close> raised \<open>URLError\<close>, no response was obtained;
    \<open>reason\<close> is the text of \<open>e.reason\<close>.
  \<^item> \<open>OtherException str_e\<close>: \<open>urlopen\<close> raised any other \<open>Exception\<close>.
\<close>

datatype raw_outcome =
    Response int "(string \<times> string) list" "py_exception + string"
  | HTTPError int string "(string \<times> string) list" "py_exception + string"
  | URLError string
  | OtherException string

text \<open>Lines 222 and 228: the key as the logged URL shows it.\<close>

definition masked_key :: "string \<Rightarrow> string" where
  "masked_key api_key =
     (if length api_key > 12
      then take 8 api_key @ ''...'' @ drop (length api_key - 4) api_key
      else ''***'')"

text \<open>Lines 203 to 205.\<close>

definition request_params :: "api_info \<Rightarrow> string \<Rightarrow> (string \<times> string) list" where
  "request_params info api_key =
     AList.update ''key'' api_key (case api_params info of None \<Rightarrow> [] | Some ps \<Rightarrow> ps)"

definition request_method :: "api_info \<Rightarrow> string" where
  "request_method info = (case api_method info of None \<Rightarrow> ''GET'' | Some m \<Rightarrow> m)"

text \<open>Lines 219 to 233: the URL requested, the URL logged, and the body logged.\<close>

definition full_url :: "api_info \<Rightarrow> string \<Rightarrow> string" where
  "full_url info api_key =
     (if request_method info = ''GET''
      then api_url info @ ''?'' @ urlencode (request_params info api_key)
      else api_url info @ ''?key='' @ api_key)"

definition display_url :: "api_info \<Rightarrow> string \<Rightarrow> string" where
  "display_url info api_key =
     (if request_method info = ''GET''
      then api_url info @ ''?'' @
           urlencode (AList.update ''key'' (masked_key api_key) (request_params info api_key))
      else api_url info @ ''?key='' @ masked_key api_key)"

definition request_body :: "api_info \<Rightarrow> json" where
  "request_body info =
     (if request_method info = ''GET'' then JNull
      else (case api_body info of None \<Rightarrow> JObj [] | Some b \<Rightarrow> b))"

text \<open>
  Lines 264 to 305 with the handler of line 354: an exception in the classification
  leaves \<open>accessible\<close> as it was and stores its text.
\<close>

definition classified :: "result \<Rightarrow> json \<Rightarrow> result" where
  "classified result json_response =
     (case classify json_response of
        Inl ex \<Rightarrow> result\<lparr>error := Some (str_exc ex)\<rparr>
      | Inr (acc, diagnostic) \<Rightarrow> result\<lparr>accessible := acc, error := diagnostic\<rparr>)"

definition truncated_marker :: string where
  "truncated_marker = ''...'' @ [CHR 0x22] @ ''truncated'' @ [CHR 0x22] @ ''...''"

text \<open>
  \<open>test_api\<close>. Its first argument is \<open>json.loads\<close>: \<open>None\<close> when it raises
  \<open>JSONDecodeError\<close>. The last is what the network did.
\<close>

definition test_api ::
  "(string \<Rightarrow> json option) \<Rightarrow> api_info \<Rightarrow> string \<Rightarrow> bool \<Rightarrow> raw_outcome \<Rightarrow> result" where
  "test_api json_loads info api_key verbose outcome =
     (let result = \<lparr>name = api_name info, accessible = False, paid = api_paid info,
                     cost_info = api_cost_info info, status = None, error = None,
                     request = None, response = None\<rparr>;
          result = (if verbose
                    then result\<lparr>request := Some \<lparr>req_method = request_method info,
                                   req_url = display_url info api_key,
                                   req_body = request_body info\<rparr>\<rparr>
                    else result)
      in case outcome of
           Response st hdrs rd \<Rightarrow>
             (let result = result\<lparr>status := Some st\<rparr> in
              case rd of
                Inl ex \<Rightarrow> result\<lparr>error := Some (str_exc ex)\<rparr>
              | Inr response_data \<Rightarrow>
                  (let with_body = (\<lambda>b. if verbose
                         then result\<lparr>response := Some \<lparr>resp_status_code = st,
                                        resp_headers = hdrs, resp_body = b\<rparr>\<rparr>
                         else result);
                       not_json = (with_body (JStr (''<binary or non-JSON data, ''
                                      @ str_nat (length response_data) @ '' bytes>'')))
                                    \<lparr>accessible := True\<rparr>
                   in case json_loads response_data of
                        None \<Rightarrow> not_json
                      | Some json_response \<Rightarrow>
                          if verbose then
                            (if length response_data > 1000 then
                               (case json_loads (take 1000 response_data @ truncated_marker) of
                                  None \<Rightarrow> not_json
                                | Some shown \<Rightarrow> classified (with_body shown) json_response)
                             else classified (with_body json_response) json_response)
                          else classified result json_response))
         | HTTPError code str_e hdrs rd \<Rightarrow>
             (let result = result\<lparr>status := Some code\<rparr> in
              case rd of
                Inl ex \<Rightarrow> result\<lparr>error := Some str_e\<rparr>
              | Inr error_body \<Rightarrow>
                  (case json_loads error_body of
                     None \<Rightarrow> result\<lparr>error := Some str_e\<rparr>
                   | Some error_json \<Rightarrow>
                       (let result = (if verbose
                              then result\<lparr>request := Some \<lparr>req_method = request_method info,
                                       req_url = display_url info api_key,
                                       req_body = (if request_method info \<noteq> ''GET''
                                                   then request_body info else JNull)\<rparr>,
                                     response := Some \<lparr>resp_status_code = code,
                                       resp_headers = hdrs, resp_body = error_json\<rparr>\<rparr>
                              else result)
                        in case http_error_diagnostic error_json str_e of
                             Inl ex \<Rightarrow> result\<lparr>error := Some str_e\<rparr>
                           | Inr diagnostic \<Rightarrow> result\<lparr>error := Some diagnostic\<rparr>)))
         | URLError reason \<Rightarrow>
             result\<lparr>error := Some (''Connection error: '' @ reason),
                    request := (if verbose
                       then Some \<lparr>req_method = request_method info,
                                  req_url = display_url info api_key,
                                  req_body = (if request_method info \<noteq> ''GET''
                                              then request_body info else JNull)\<rparr>
                       else request result)\<rparr>
         | OtherException str_e \<Rightarrow> result\<lparr>error := Some str_e\<rparr>)"

section \<open>The loop of \<open>main\<close>\<close>

text \<open>
  Lines 385 to 401: one probe per entry, in order; every result is appended to
  \<open>results\<close>, an accessible one also to \<open>accessible_paid\<close> or \<open>accessible_free\<close>. Each
  entry comes with what the network did with its request.
\<close>

fun probe_loop ::
  "(string \<Rightarrow> json option) \<Rightarrow> string \<Rightarrow> bool \<Rightarrow> (api_info \<times> raw_outcome) list
    \<Rightarrow> result list \<times> result list \<times> result list
    \<Rightarrow> result list \<times> result list \<times> result list" where
  "probe_loop json_loads api_key verbose [] acc = acc"
| "probe_loop json_loads api_key verbose ((api, outcome) # rest)
      (results, accessible_paid, accessible_free) =
     (let result = test_api json_loads api api_key verbose outcome in
      probe_loop json_loads api_key verbose rest
        (results @ [result],
         (if accessible result \<and> paid result then accessible_paid @ [result]
          else accessible_paid),
         (if accessible result \<and> \<not> paid result then accessible_free @ [result]
          else accessible_free)))"

text \<open>Lines 444 to 450: the report of \<open>--json\<close>.\<close>

record run_summary =
  total_tested :: nat
  accessible_paid_services :: nat
  accessible_free_services :: nat
  results :: "result list"

definition main_output ::
  "(string \<Rightarrow> json option) \<Rightarrow> string \<Rightarrow> bool \<Rightarrow> (api_info \<times> raw_outcome) list
    \<Rightarrow> run_summary" where
  "main_output json_loads api_key verbose apis_to_test =
     (case probe_loop json_loads api_key verbose apis_to_test ([], [], []) of
        (rs, accessible_paid, accessible_free) \<Rightarrow>
          \<lparr>total_tested = length rs,
           accessible_paid_services = length accessible_paid,
           accessible_free_services = length accessible_free,
           results = rs\<rparr>)"

section \<open>The rules as the specification words them\<close>

text \<open>
  The specification describes the classification of a decoded JSON object \<open>kv\<close> by an
  extracted message, a status and six rules. The definitions of this section follow its
  words, to be compared with \<open>classify\<close>.
\<close>

text \<open>The text of a field; empty when the field is absent or no string.\<close>

definition text_field :: "(string \<times> json) list \<Rightarrow> string \<Rightarrow> string" where
  "text_field kv key = (case map_of kv key of Some (JStr s) \<Rightarrow> s | _ \<Rightarrow> [])"

text \<open>
  The message: a top-level \<open>error_message\<close>, a top-level \<open>errorMessage\<close>, then a nested
  \<open>error.message\<close>; the first that is not empty, else the empty string.
\<close>

definition spec_error_message :: "(string \<times> json) list \<Rightarrow> string" where
  "spec_error_message kv =
     (if text_field kv ''error_message'' \<noteq> [] then text_field kv ''error_message''
      else if text_field kv ''errorMessage'' \<noteq> [] then text_field kv ''errorMessage''
      else (case map_of kv ''error'' of
              Some (JObj ekv) \<Rightarrow> text_field ekv ''message''
            | _ \<Rightarrow> []))"

text \<open>The JSON has an \<open>error\<close> object whose \<open>code\<close> is 401 or 403.\<close>

definition spec_error_code_denied :: "(string \<times> json) list \<Rightarrow> bool" where
  "spec_error_code_denied kv =
     (case map_of kv ''error'' of
        Some (JObj ekv) \<Rightarrow>
          (case map_of ekv ''code'' of
             Some (JInt n) \<Rightarrow> n = 401 \<or> n = 403
           | Some (JFloat (Finite r)) \<Rightarrow> r = 401 \<or> r = 403
           | _ \<Rightarrow> False)
      | _ \<Rightarrow> False)"

text \<open>A denial phrase occurs in the lower-cased message.\<close>

definition is_denial_phrase :: "string \<Rightarrow> bool" where
  "is_denial_phrase msg = list_ex (\<lambda>phrase. contains phrase (lower msg)) denial_phrases"

text \<open>The six rules, in their order; the value is the verdict and its diagnostic.\<close>

definition priority_rules :: "(string \<times> json) list \<Rightarrow> bool \<times> string option" where
  "priority_rules kv =
     (let msg = spec_error_message kv;
          st = map_of kv ''status'';
          denial = is_denial_phrase msg
      in if spec_error_code_denied kv
         then (False, Some (if msg = [] then ''Access denied'' else msg))
         else if st = Some (JStr ''REQUEST_DENIED'') \<and> denial
         then (False, Some (if msg = [] then ''Request denied'' else msg))
         else if st = Some (JStr ''OVER_QUERY_LIMIT'') \<or> st = Some (JStr ''RESOURCE_EXHAUSTED'')
         then (True, Some (''Rate limited (but key has access): '' @ msg))
         else if st = Some (JStr ''REQUEST_DENIED'') \<and> \<not> denial
         then (True, Some (''Possibly accessible (unclear denial): '' @ msg))
         else if denial then (False, Some msg)
         else (True, None))"

text \<open>
  The fields the message is read from have the types of Google's error envelope: each
  of \<open>error_message\<close>, \<open>errorMessage\<close> and \<open>error.message\<close> is absent, null or a string, and
  \<open>error\<close> is absent or an object.
\<close>

definition text_or_missing :: "json option \<Rightarrow> bool" where
  "text_or_missing v =
     (case v of None \<Rightarrow> True | Some JNull \<Rightarrow> True | Some (JStr s) \<Rightarrow> True | _ \<Rightarrow> False)"

definition well_typed_envelope :: "(string \<times> json) list \<Rightarrow> bool" where
  "well_typed_envelope kv =
     (text_or_missing (map_of kv ''error_message'') \<and>
      text_or_missing (map_of kv ''errorMessage'') \<and>
      (case map_of kv ''error'' of
         None \<Rightarrow> True
       | Some (JObj ekv) \<Rightarrow> text_or_missing (map_of ekv ''message'')
       | _ \<Rightarrow> False))"

text \<open>
  What the classification reads of an object \<open>kv\<close> beyond those types. \<open>first_message\<close> is
  the first truthy value among \<open>error_message\<close>, \<open>errorMessage\<close> and \<open>error.message\<close>, each
  taken as null when it is absent (\<open>error.message\<close> also when \<open>error\<close> is no object).
  \<open>envelope_fault\<close> is the exception the envelope makes the classification raise: none
  when that first value is a string, or there is none, and \<open>error\<close> is absent or an
  object; else the \<open>AttributeError\<close> for \<open>.lower\<close> on that first value when it is no
  string, and otherwise the one for \<open>.get\<close> on the \<open>error\<close> that is no object. \<open>text_of\<close>
  is the text of a value, empty for a value that is no string.
\<close>

definition field_or_null :: "(string \<times> json) list \<Rightarrow> string \<Rightarrow> json" where
  "field_or_null kv key = (case map_of kv key of None \<Rightarrow> JNull | Some v \<Rightarrow> v)"

definition nested_message :: "(string \<times> json) list \<Rightarrow> json" where
  "nested_message kv =
     (case map_of kv ''error'' of
        Some (JObj ekv) \<Rightarrow> field_or_null ekv ''message''
      | _ \<Rightarrow> JNull)"

definition first_message :: "(string \<times> json) list \<Rightarrow> json option" where
  "first_message kv =
     find truthy [field_or_null kv ''error_message'', field_or_null kv ''errorMessage'',
                  nested_message kv]"

definition error_field_fault :: "(string \<times> json) list \<Rightarrow> py_exception option" where
  "error_field_fault kv =
     (case map_of kv ''error'' of
        None \<Rightarrow> None
      | Some (JObj ekv) \<Rightarrow> None
      | Some e \<Rightarrow> Some (no_attribute e ''get''))"

definition envelope_fault :: "(string \<times> json) list \<Rightarrow> py_exception option" where
  "envelope_fault kv =
     (case first_message kv of
        None \<Rightarrow> error_field_fault kv
      | Some (JStr s) \<Rightarrow> error_field_fault kv
      | Some v \<Rightarrow> Some (no_attribute v ''lower''))"

definition text_of :: "json \<Rightarrow> string" where
  "text_of v = (case v of JStr s \<Rightarrow> s | _ \<Rightarrow> [])"

section \<open>Sample probes\<close>

text \<open>Three entries of \<open>GOOGLE_APIS\<close>: a paid GET, a paid POST and a free GET.\<close>

definition geocoding_api :: api_info where
  "geocoding_api =
     \<lparr>api_name = ''Maps Geocoding API'',
      api_url = ''https://maps.googleapis.com/maps/api/geocode/json'',
      api_params = Some [(''address'', ''1600 Amphitheatre Parkway'')],
      api_method = None,
      api_body = None,
      api_paid = True,
      api_cost_info = ''$5 per 1000 requests''\<rparr>"

definition speech_api :: api_info where
  "speech_api =
     \<lparr>api_name = ''Cloud Speech-to-Text API'',
      api_url = ''https://speech.googleapis.com/v1/speech:recognize'',
      api_params = Some [],
      api_method = Some ''POST'',
      api_body = Some (JObj [(''config'', JObj [(''languageCode'', JStr ''en-US'')])]),
      api_paid = True,
      api_cost_info = ''$0.006 per 15 seconds''\<rparr>"

definition civic_api :: api_info where
  "civic_api =
     \<lparr>api_name = ''Civic Information API'',
      api_url = ''https://www.googleapis.com/civicinfo/v2/elections'',
      api_params = Some [],
      api_method = None,
      api_body = None,
      api_paid = False,
      api_cost_info = ''Free''\<rparr>"

text \<open>
  A stand-in for \<open>json.loads\<close> in the examples: it decodes the one text \<open>body\<close>, to \<open>v\<close>, and
  raises on any other. Each example gives it a text and the value \<open>json.loads\<close> decodes
  that text to.
\<close>

definition loads_only :: "string \<Rightarrow> json \<Rightarrow> string \<Rightarrow> json option" where
  "loads_only body v s = (if s = body then Some v else None)"

text \<open>
  Two bodies longer than 1000 characters, with the values \<open>json.loads\<close> decodes them to:
  an object that denies the request, padded by a field of a thousand letters, and an
  array of 501 numbers.
\<close>

definition long_denied_body :: string where
  "long_denied_body =
     ''{\"status\": \"REQUEST_DENIED\", \"error_message\": \"API key not valid\", \"padding\": \"''
       @ replicate 1000 (CHR ''a'') @ ''\"}''"

definition long_denied_json :: json where
  "long_denied_json =
     JObj [(''status'', JStr ''REQUEST_DENIED''),
           (''error_message'', JStr ''API key not valid''),
           (''padding'', JStr (replicate 1000 (CHR ''a'')))]"

definition long_array_body :: string where
  "long_array_body = ''[1'' @ concat (replicate 500 '', 1'') @ '']''"

definition long_array_json :: json where
  "long_array_json = JArr (replicate 501 (JInt 1))"

text \<open>A plain body of the free entry, and a stand-in for \<open>json.loads\<close> that decodes the
  texts of a table and raises on any other.\<close>

definition civic_plain_body :: string where
  "civic_plain_body = ''{\"kind\": \"civicinfo#electionsQueryResponse\", \"elections\": []}''"

definition civic_plain_json :: json where
  "civic_plain_json =
     JObj [(''kind'', JStr ''civicinfo#electionsQueryResponse''), (''elections'', JArr [])]"

definition loads_table :: "(string \<times> json) list \<Rightarrow> string \<Rightarrow> json option" where
  "loads_table table s = map_of table s"

section \<open>Auxiliary facts\<close>

lemma json_get_obj:
  "json_get (JObj kv) key dflt = Inr (case map_of kv key of None \<Rightarrow> dflt | Some v \<Rightarrow> v)"
  by (simp add: json_get_def)

lemma text_or_missing_truthy:
  assumes "text_or_missing v"
  shows "truthy (case v of None \<Rightarrow> JNull | Some x \<Rightarrow> x)
           = ((case v of Some (JStr s) \<Rightarrow> s | _ \<Rightarrow> []) \<noteq> [])"
proof (cases v)
  case None
  then show ?thesis by simp
next
  case (Some x)
  with assms show ?thesis by (cases x) (simp_all add: text_or_missing_def)
qed

lemma text_or_missing_value:
  assumes "text_or_missing v" and "truthy (case v of None \<Rightarrow> JNull | Some x \<Rightarrow> x)"
  shows "(case v of None \<Rightarrow> JNull | Some x \<Rightarrow> x)
           = JStr (case v of Some (JStr s) \<Rightarrow> s | _ \<Rightarrow> [])"
proof (cases v)
  case None
  with assms show ?thesis by simp
next
  case (Some x)
  with assms show ?thesis by (cases x) (simp_all add: text_or_missing_def)
qed

lemma nested_message_well_typed:
  assumes "case e of None \<Rightarrow> True
           | Some (JObj ekv) \<Rightarrow> text_or_missing (map_of ekv ''message'') | _ \<Rightarrow> False"
  shows "(case json_get (case e of None \<Rightarrow> JObj [] | Some v \<Rightarrow> v) ''message'' JNull of
            Inl ex \<Rightarrow> Inl ex
          | Inr c \<Rightarrow> if truthy c then Inr c else Inr (JStr []))
         = Inr (JStr (case e of Some (JObj ekv) \<Rightarrow> text_field ekv ''message'' | _ \<Rightarrow> []))"
proof (cases e)
  case None
  then show ?thesis by (simp add: json_get_obj)
next
  case (Some x)
  show ?thesis
  proof (cases x)
    case (JObj ekv)
    with Some assms have t: "text_or_missing (map_of ekv ''message'')" by simp
    show ?thesis
    proof (cases "truthy (case map_of ekv ''message'' of None \<Rightarrow> JNull | Some x \<Rightarrow> x)")
      case True
      with Some JObj text_or_missing_value [OF t True] show ?thesis
        by (simp add: json_get_obj text_field_def)
    next
      case False
      with Some JObj text_or_missing_truthy [OF t] show ?thesis
        by (simp add: json_get_obj text_field_def)
    qed
  qed (use Some assms in simp_all)
qed

lemma extract_error_msg_well_typed:
  assumes "well_typed_envelope kv"
  shows "extract_error_msg (JObj kv) = Inr (JStr (spec_error_message kv))"
proof -
  from assms have a: "text_or_missing (map_of kv ''error_message'')"
    and b: "text_or_missing (map_of kv ''errorMessage'')"
    and c: "case map_of kv ''error'' of None \<Rightarrow> True
            | Some (JObj ekv) \<Rightarrow> text_or_missing (map_of ekv ''message'') | _ \<Rightarrow> False"
    by (simp_all add: well_typed_envelope_def)
  show ?thesis
  proof (cases "truthy (case map_of kv ''error_message'' of None \<Rightarrow> JNull | Some x \<Rightarrow> x)")
    case True
    with text_or_missing_value [OF a True] text_or_missing_truthy [OF a] show ?thesis
      by (simp add: extract_error_msg_def json_get_obj spec_error_message_def text_field_def)
  next
    case na: False
    show ?thesis
    proof (cases "truthy (case map_of kv ''errorMessage'' of None \<Rightarrow> JNull | Some x \<Rightarrow> x)")
      case True
      with na text_or_missing_value [OF b True] text_or_missing_truthy [OF a]
        text_or_missing_truthy [OF b] show ?thesis
        by (simp add: extract_error_msg_def json_get_obj spec_error_message_def text_field_def)
    next
      case False
      with na text_or_missing_truthy [OF a] text_or_missing_truthy [OF b]
        nested_message_well_typed [OF c] show ?thesis
        by (simp add: extract_error_msg_def json_get_obj spec_error_message_def text_field_def)
    qed
  qed
qed

lemma py_eq_int_401_403:
  "(py_eq_int code 401 \<or> py_eq_int code 403) =
     (case code of JInt n \<Rightarrow> n = 401 \<or> n = 403
      | JFloat (Finite r) \<Rightarrow> r = 401 \<or> r = 403 | _ \<Rightarrow> False)"
proof (cases code)
  case (JFloat f)
  then show ?thesis by (cases f) simp_all
qed simp_all

lemma has_denied_code_well_typed:
  assumes "well_typed_envelope kv"
  shows "has_denied_code (JObj kv) = Inr (spec_error_code_denied kv)"
proof (cases "map_of kv ''error''")
  case None
  then show ?thesis
    by (simp add: has_denied_code_def py_in_def spec_error_code_denied_def)
next
  case (Some x)
  show ?thesis
  proof (cases x)
    case (JObj ekv)
    show ?thesis
    proof (cases "map_of ekv ''code''")
      case None
      with Some JObj show ?thesis
        by (simp add: has_denied_code_def py_in_def py_getitem_def json_get_obj
              spec_error_code_denied_def)
    next
      case (Some code)
      with \<open>map_of kv ''error'' = Some x\<close> JObj py_eq_int_401_403 [of code] show ?thesis
        by (simp add: has_denied_code_def py_in_def py_getitem_def json_get_obj
              spec_error_code_denied_def split: json.splits pyfloat.splits)
    qed
  qed (use Some assms in \<open>simp_all add: well_typed_envelope_def\<close>)
qed

lemma status_default_eq:
  assumes "s \<noteq> []"
  shows "((case m of None \<Rightarrow> JStr [] | Some v \<Rightarrow> v) = JStr s) = (m = Some (JStr s))"
  using assms by (cases m) auto

lemma classify_well_typed:
  assumes "well_typed_envelope kv"
  shows "classify (JObj kv) = Inr (priority_rules kv)"
proof -
  have rd: "((case map_of kv ''status'' of None \<Rightarrow> JStr [] | Some v \<Rightarrow> v)
               = JStr ''REQUEST_DENIED'')
              = (map_of kv ''status'' = Some (JStr ''REQUEST_DENIED''))"
    by (rule status_default_eq) simp
  have oq: "((case map_of kv ''status'' of None \<Rightarrow> JStr [] | Some v \<Rightarrow> v)
               = JStr ''OVER_QUERY_LIMIT'')
              = (map_of kv ''status'' = Some (JStr ''OVER_QUERY_LIMIT''))"
    by (rule status_default_eq) simp
  have re: "((case map_of kv ''status'' of None \<Rightarrow> JStr [] | Some v \<Rightarrow> v)
               = JStr ''RESOURCE_EXHAUSTED'')
              = (map_of kv ''status'' = Some (JStr ''RESOURCE_EXHAUSTED''))"
    by (rule status_default_eq) simp
  have sw: "\<And>P (a::string) b. (if \<not> P then a else b) = (if P then b else a)"
    by simp
  show ?thesis
    unfolding classify_def priority_rules_def is_denial_phrase_def Let_def
      extract_error_msg_well_typed [OF assms] has_denied_code_well_typed [OF assms]
      json_get_obj
    by (simp only: sum.case json.case rd oq re sw)
qed

lemma test_api_response_accessible:
  assumes "json_loads response_data = Some json_response"
    and "\<not> (verbose \<and> length response_data > 1000)"
  shows "accessible (test_api json_loads info api_key verbose
                       (Response st hdrs (Inr response_data)))
           = (case classify json_response of Inl ex \<Rightarrow> False | Inr (acc, diagnostic) \<Rightarrow> acc)"
  using assms
  by (cases "classify json_response")
     (auto simp: test_api_def classified_def Let_def split: prod.splits)

lemma test_api_response_error:
  assumes "json_loads response_data = Some json_response"
    and "\<not> (verbose \<and> length response_data > 1000)"
  shows "error (test_api json_loads info api_key verbose
                  (Response st hdrs (Inr response_data)))
           = (case classify json_response of
                Inl ex \<Rightarrow> Some (str_exc ex) | Inr (acc, diagnostic) \<Rightarrow> diagnostic)"
  using assms
  by (cases "classify json_response")
     (auto simp: test_api_def classified_def Let_def split: prod.splits)

lemma test_api_paid: "paid (test_api json_loads info api_key verbose outcome) = api_paid info"
  by (cases outcome)
     (simp_all add: test_api_def classified_def Let_def
        split: sum.splits option.splits prod.splits)

lemma request_method_paid: "request_method (info\<lparr>api_paid := p\<rparr>) = request_method info"
  by (simp add: request_method_def)

lemma request_body_paid: "request_body (info\<lparr>api_paid := p\<rparr>) = request_body info"
  by (simp add: request_body_def request_method_def)

lemma display_url_paid:
  "display_url (info\<lparr>api_paid := p\<rparr>) api_key = display_url info api_key"
  by (simp add: display_url_def request_params_def request_method_def)

lemma probe_loop_acc:
  "probe_loop json_loads api_key verbose apis (rs, ap, af) =
     (rs @ map (\<lambda>(api, outcome). test_api json_loads api api_key verbose outcome) apis,
      ap @ filter (\<lambda>r. accessible r \<and> paid r)
             (map (\<lambda>(api, outcome). test_api json_loads api api_key verbose outcome) apis),
      af @ filter (\<lambda>r. accessible r \<and> \<not> paid r)
             (map (\<lambda>(api, outcome). test_api json_loads api api_key verbose outcome) apis))"
proof (induction apis arbitrary: rs ap af)
  case Nil
  then show ?case by simp
next
  case (Cons a apis)
  obtain api outcome where a: "a = (api, outcome)" by (cases a)
  show ?case unfolding a by (simp add: Cons.IH Let_def)
qed

lemma classify_denied_example:
  "classify (JObj [(''status'', JStr ''REQUEST_DENIED''),
                   (''error_message'', JStr ''API key not valid'')])
     = Inr (False, Some ''API key not valid'')"
  by code_simp

lemma contains_length: "contains sub s \<Longrightarrow> length sub \<le> length s"
proof (induction s)
  case Nil
  then show ?case by simp
next
  case (Cons c cs)
  from Cons.prems have "take (length sub) (c # cs) = sub \<or> contains sub cs" by simp
  then show ?case
  proof
    assume "take (length sub) (c # cs) = sub"
    then have "length sub = length (take (length sub) (c # cs))" by simp
    then show ?thesis by simp
  next
    assume "contains sub cs"
    with Cons.IH show ?thesis by simp
  qed
qed

lemma masked_key_length: "12 < length api_key \<Longrightarrow> length (masked_key api_key) = 15"
  by (simp add: masked_key_def)

lemma request_trace_verbose:
  "request (test_api json_loads info api_key True outcome)
     = Some \<lparr>req_method = request_method info, req_url = display_url info api_key,
             req_body = request_body info\<rparr>"
  by (cases outcome)
     (simp_all add: test_api_def classified_def Let_def request_body_def
        split: sum.splits option.splits prod.splits)

lemma request_trace_quiet:
  "request (test_api json_loads info api_key False outcome) = None"
  by (cases outcome)
     (simp_all add: test_api_def classified_def Let_def
        split: sum.splits option.splits prod.splits)

lemma truncated_text_differs:
  assumes "1000 < length response_data" and "length response_data \<noteq> 1017"
  shows "take 1000 response_data @ truncated_marker \<noteq> response_data"
proof
  assume "take 1000 response_data @ truncated_marker = response_data"
  then have "length (take 1000 response_data @ truncated_marker) = length response_data"
    by simp
  with assms show False by (simp add: truncated_marker_def)
qed

lemma test_api_truncation:
  assumes "json_loads response_data = Some json_response"
    and "1000 < length response_data"
    and "json_loads (take 1000 response_data @ truncated_marker) = None"
  shows "accessible (test_api json_loads info api_key True
                       (Response st hdrs (Inr response_data))) = True"
    and "error (test_api json_loads info api_key True
                  (Response st hdrs (Inr response_data))) = None"
  using assms by (simp_all add: test_api_def Let_def)

lemma classify_non_object:
  assumes "\<And>kv. json_response \<noteq> JObj kv"
  shows "classify json_response = Inl (no_attribute json_response ''get'')"
proof (cases json_response)
  case (JObj kv)
  with assms show ?thesis by blast
qed (simp_all add: classify_def extract_error_msg_def json_get_def)

lemma long_denied_length: "length long_denied_body = 1081"
  by (simp add: long_denied_body_def)

lemma long_array_length: "length long_array_body = 1503"
  unfolding long_array_body_def by code_simp

lemma classify_long_denied: "classify long_denied_json = Inr (False, Some ''API key not valid'')"
  unfolding long_denied_json_def by code_simp

lemma contains_set: "contains sub s \<Longrightarrow> set sub \<subseteq> set s"
proof (induction s)
  case Nil
  then show ?case by simp
next
  case (Cons c cs)
  from Cons.prems have "take (length sub) (c # cs) = sub \<or> contains sub cs" by simp
  then show ?case
  proof
    assume "take (length sub) (c # cs) = sub"
    then have "set sub = set (take (length sub) (c # cs))" by simp
    also have "\<dots> \<subseteq> set (c # cs)" by (rule set_take_subset)
    finally show ?thesis .
  next
    assume "contains sub cs"
    with Cons.IH show ?thesis by auto
  qed
qed

lemma stars_only:
  assumes "set k \<subseteq> {CHR ''*''}" and "length k \<le> 3"
  shows "k = [] \<or> k = ''*'' \<or> k = ''**'' \<or> k = ''***''"
proof -
  from assms(1) have "k = replicate (length k) (CHR ''*'')"
    by (induction k) auto
  moreover from assms(2) have "length k = 0 \<or> length k = 1 \<or> length k = 2 \<or> length k = 3"
    by arith
  ultimately show ?thesis
    by (metis numeral_2_eq_2 numeral_3_eq_3 One_nat_def replicate_0 replicate_Suc)
qed

lemma short_key_in_stars:
  assumes "contains api_key ''***''"
  shows "api_key = [] \<or> api_key = ''*'' \<or> api_key = ''**'' \<or> api_key = ''***''"
proof (rule stars_only)
  from contains_set [OF assms] show "set api_key \<subseteq> {CHR ''*''}" by simp
  from contains_length [OF assms] show "length api_key \<le> 3" by simp
qed

lemma verdict_independent_of_verbose:
  assumes "\<And>st hdrs rd j. outcome = Response st hdrs (Inr rd) \<Longrightarrow> json_loads rd = Some j
             \<Longrightarrow> 1000 < length rd
             \<Longrightarrow> json_loads (take 1000 rd @ truncated_marker) \<noteq> None"
  shows "accessible (test_api json_loads info api_key True outcome)
           = accessible (test_api json_loads info api_key False outcome)"
    and "error (test_api json_loads info api_key True outcome)
           = error (test_api json_loads info api_key False outcome)"
proof -
  have "accessible (test_api json_loads info api_key True outcome)
           = accessible (test_api json_loads info api_key False outcome)
        \<and> error (test_api json_loads info api_key True outcome)
           = error (test_api json_loads info api_key False outcome)"
  proof (cases outcome)
    case (Response st hdrs rd)
    show ?thesis
    proof (cases rd)
      case (Inl ex)
      with Response show ?thesis by (simp add: test_api_def Let_def)
    next
      case (Inr response_data)
      show ?thesis
      proof (cases "json_loads response_data")
        case None
        with Response Inr show ?thesis by (simp add: test_api_def Let_def)
      next
        case (Some j)
        show ?thesis
        proof (cases "1000 < length response_data")
          case True
          from assms [OF _ Some True] Response Inr
          obtain shown where "json_loads (take 1000 response_data @ truncated_marker) = Some shown"
            by auto
          with Response Inr Some True show ?thesis
            by (cases "classify j")
               (auto simp: test_api_def classified_def Let_def split: prod.splits)
        next
          case False
          with Response Inr Some show ?thesis
            by (cases "classify j")
               (auto simp: test_api_def classified_def Let_def split: prod.splits)
        qed
      qed
    qed
  next
    case (HTTPError code str_e hdrs rd)
    then show ?thesis
      by (simp add: test_api_def Let_def split: sum.splits option.splits)
  next
    case (URLError reason)
    then show ?thesis by (simp add: test_api_def Let_def)
  next
    case (OtherException str_e)
    then show ?thesis by (simp add: test_api_def Let_def)
  qed
  then show "accessible (test_api json_loads info api_key True outcome)
           = accessible (test_api json_loads info api_key False outcome)"
    and "error (test_api json_loads info api_key True outcome)
           = error (test_api json_loads info api_key False outcome)"
    by simp_all
qed

lemma text_field_falsy:
  "\<not> truthy (field_or_null kv key) \<Longrightarrow> text_field kv key = []"
proof (cases "map_of kv key")
  case None
  then show ?thesis by (simp add: text_field_def)
next
  case (Some v)
  assume "\<not> truthy (field_or_null kv key)"
  with Some show ?thesis by (cases v) (simp_all add: text_field_def field_or_null_def)
qed

lemma text_field_string:
  "field_or_null kv key = JStr s \<Longrightarrow> text_field kv key = s"
  by (cases "map_of kv key") (simp_all add: text_field_def field_or_null_def)

lemma extract_error_msg_object:
  "extract_error_msg (JObj kv) =
     (if truthy (field_or_null kv ''error_message'') then Inr (field_or_null kv ''error_message'')
      else if truthy (field_or_null kv ''errorMessage'') then Inr (field_or_null kv ''errorMessage'')
      else (case map_of kv ''error'' of
              None \<Rightarrow> Inr (JStr [])
            | Some (JObj ekv) \<Rightarrow>
                Inr (if truthy (field_or_null ekv ''message'') then field_or_null ekv ''message''
                     else JStr [])
            | Some e \<Rightarrow> Inl (no_attribute e ''get'')))"
proof (cases "map_of kv ''error''")
  case None
  then show ?thesis
    by (simp add: extract_error_msg_def json_get_obj field_or_null_def)
next
  case (Some e)
  then show ?thesis
    by (cases e) (simp_all add: extract_error_msg_def json_get_def field_or_null_def)
qed

lemma has_denied_code_object:
  "has_denied_code (JObj kv) =
     (case map_of kv ''error'' of
        None \<Rightarrow> Inr False
      | Some (JObj ekv) \<Rightarrow> Inr (spec_error_code_denied kv)
      | Some e \<Rightarrow> Inl (no_attribute e ''get''))"
proof (cases "map_of kv ''error''")
  case None
  then show ?thesis by (simp add: has_denied_code_def py_in_def)
next
  case (Some e)
  show ?thesis
  proof (cases e)
    case (JObj ekv)
    show ?thesis
    proof (cases "map_of ekv ''code''")
      case None
      with Some JObj show ?thesis
        by (simp add: has_denied_code_def py_in_def py_getitem_def json_get_obj
              spec_error_code_denied_def)
    next
      case (Some code)
      with \<open>map_of kv ''error'' = Some e\<close> JObj py_eq_int_401_403 [of code] show ?thesis
        by (simp add: has_denied_code_def py_in_def py_getitem_def json_get_obj
              spec_error_code_denied_def split: json.splits pyfloat.splits)
    qed
  qed (use Some in \<open>simp_all add: has_denied_code_def py_in_def py_getitem_def json_get_def\<close>)
qed


lemma text_field_text_of: "text_field kv key = text_of (field_or_null kv key)"
  by (cases "map_of kv key") (simp_all add: text_field_def field_or_null_def text_of_def)

lemma nested_text_of:
  "(case map_of kv ''error'' of Some (JObj ekv) \<Rightarrow> text_field ekv ''message'' | _ \<Rightarrow> [])
     = text_of (nested_message kv)"
proof (cases "map_of kv ''error''")
  case None
  then show ?thesis by (simp add: nested_message_def text_of_def)
next
  case (Some e)
  then show ?thesis
    by (cases e) (simp_all add: nested_message_def text_of_def text_field_text_of)
qed

lemma text_of_falsy: "\<not> truthy v \<Longrightarrow> text_of v = []"
  by (cases v) (simp_all add: text_of_def)

lemma spec_error_message_first:
  "spec_error_message kv = (case first_message kv of Some (JStr s) \<Rightarrow> s | _ \<Rightarrow> [])"
    if "\<And>v. first_message kv = Some v \<Longrightarrow> \<exists>s. v = JStr s"
proof -
  let ?a = "field_or_null kv ''error_message''"
  let ?b = "field_or_null kv ''errorMessage''"
  let ?c = "nested_message kv"
  have sm: "spec_error_message kv
      = (if text_of ?a \<noteq> [] then text_of ?a
         else if text_of ?b \<noteq> [] then text_of ?b else text_of ?c)"
    by (simp add: spec_error_message_def text_field_text_of nested_text_of)
  show ?thesis
  proof (cases "truthy ?a")
    case True
    then have f: "first_message kv = Some ?a" by (simp add: first_message_def)
    from that [OF f] obtain s where s: "?a = JStr s" by blast
    with True have "s \<noteq> []" by simp
    with s f show ?thesis by (simp add: sm text_of_def)
  next
    case na: False
    show ?thesis
    proof (cases "truthy ?b")
      case True
      with na have f: "first_message kv = Some ?b" by (simp add: first_message_def)
      from that [OF f] obtain s where s: "?b = JStr s" by blast
      with True have "s \<noteq> []" by simp
      with s f text_of_falsy [OF na] show ?thesis by (simp add: sm text_of_def)
    next
      case nb: False
      show ?thesis
      proof (cases "truthy ?c")
        case True
        with na nb have f: "first_message kv = Some ?c" by (simp add: first_message_def)
        from that [OF f] obtain s where s: "?c = JStr s" by blast
        with f text_of_falsy [OF na] text_of_falsy [OF nb] show ?thesis
          by (simp add: sm text_of_def)
      next
        case False
        with na nb have f: "first_message kv = None" by (simp add: first_message_def)
        with text_of_falsy [OF na] text_of_falsy [OF nb] text_of_falsy [OF False] show ?thesis
          by (simp add: sm)
      qed
    qed
  qed
qed

lemma spec_error_message_none:
  "first_message kv = None \<Longrightarrow> spec_error_message kv = []"
  using spec_error_message_first [of kv] by simp

lemma spec_error_message_some:
  "first_message kv = Some (JStr s) \<Longrightarrow> spec_error_message kv = s"
  using spec_error_message_first [of kv] by simp

lemma extract_error_msg_first:
  "extract_error_msg (JObj kv) =
     (case first_message kv of
        Some v \<Rightarrow> Inr v
      | None \<Rightarrow> (case error_field_fault kv of None \<Rightarrow> Inr (JStr []) | Some ex \<Rightarrow> Inl ex))"
proof -
  let ?a = "field_or_null kv ''error_message''"
  let ?b = "field_or_null kv ''errorMessage''"
  show ?thesis
  proof (cases "truthy ?a")
    case True
    then show ?thesis by (simp add: extract_error_msg_object first_message_def)
  next
    case na: False
    show ?thesis
    proof (cases "truthy ?b")
      case True
      with na show ?thesis by (simp add: extract_error_msg_object first_message_def)
    next
      case nb: False
      show ?thesis
      proof (cases "map_of kv ''error''")
        case None
        with na nb show ?thesis
          by (simp add: extract_error_msg_object first_message_def nested_message_def
                error_field_fault_def)
      next
        case (Some e)
        with na nb show ?thesis
          by (cases e)
             (simp_all add: extract_error_msg_object first_message_def nested_message_def
                error_field_fault_def)
      qed
    qed
  qed
qed

lemma has_denied_code_fault:
  "has_denied_code (JObj kv) =
     (case error_field_fault kv of
        None \<Rightarrow> Inr (spec_error_code_denied kv)
      | Some ex \<Rightarrow> Inl ex)"
proof (cases "map_of kv ''error''")
  case None
  then show ?thesis
    by (simp add: has_denied_code_object error_field_fault_def spec_error_code_denied_def)
next
  case (Some e)
  then show ?thesis
    by (cases e) (simp_all add: has_denied_code_object error_field_fault_def)
qed

lemma classify_rules:
  assumes e: "extract_error_msg (JObj kv) = Inr (JStr (spec_error_message kv))"
    and h: "has_denied_code (JObj kv) = Inr (spec_error_code_denied kv)"
  shows "classify (JObj kv) = Inr (priority_rules kv)"
proof -
  have rd: "((case map_of kv ''status'' of None \<Rightarrow> JStr [] | Some v \<Rightarrow> v)
               = JStr ''REQUEST_DENIED'')
              = (map_of kv ''status'' = Some (JStr ''REQUEST_DENIED''))"
    by (rule status_default_eq) simp
  have oq: "((case map_of kv ''status'' of None \<Rightarrow> JStr [] | Some v \<Rightarrow> v)
               = JStr ''OVER_QUERY_LIMIT'')
              = (map_of kv ''status'' = Some (JStr ''OVER_QUERY_LIMIT''))"
    by (rule status_default_eq) simp
  have re: "((case map_of kv ''status'' of None \<Rightarrow> JStr [] | Some v \<Rightarrow> v)
               = JStr ''RESOURCE_EXHAUSTED'')
              = (map_of kv ''status'' = Some (JStr ''RESOURCE_EXHAUSTED''))"
    by (rule status_default_eq) simp
  have sw: "\<And>P (a::string) b. (if \<not> P then a else b) = (if P then b else a)"
    by simp
  show ?thesis
    unfolding classify_def priority_rules_def is_denial_phrase_def Let_def e h json_get_obj
    by (simp only: sum.case json.case rd oq re sw)
qed

lemma classify_lower_raises:
  assumes "extract_error_msg (JObj kv) = Inr v" and "\<And>s. v \<noteq> JStr s"
  shows "classify (JObj kv) = Inl (no_attribute v ''lower'')"
proof (cases v)
  case (JStr s)
  with assms(2) show ?thesis by blast
qed (simp_all add: classify_def json_get_obj assms(1))

lemma classify_envelope:
  "classify (JObj kv) =
     (case envelope_fault kv of None \<Rightarrow> Inr (priority_rules kv) | Some ex \<Rightarrow> Inl ex)"
proof (cases "first_message kv")
  case None
  then have m: "spec_error_message kv = []"
    by (rule spec_error_message_none)
  show ?thesis
  proof (cases "error_field_fault kv")
    case n: None
    from None n have e: "extract_error_msg (JObj kv) = Inr (JStr (spec_error_message kv))"
      by (simp add: extract_error_msg_first m)
    from n have h: "has_denied_code (JObj kv) = Inr (spec_error_code_denied kv)"
      by (simp add: has_denied_code_fault)
    from None n classify_rules [OF e h] show ?thesis by (simp add: envelope_fault_def)
  next
    case (Some ex)
    with None show ?thesis
      by (simp add: envelope_fault_def classify_def extract_error_msg_first)
  qed
next
  case (Some v)
  then have e: "extract_error_msg (JObj kv) = Inr v"
    by (simp add: extract_error_msg_first)
  show ?thesis
  proof (cases "\<exists>s. v = JStr s")
    case True
    then obtain s where s: "v = JStr s" by blast
    with Some have m: "spec_error_message kv = s"
      by (simp add: spec_error_message_some)
    show ?thesis
    proof (cases "error_field_fault kv")
      case None
      from e s m have e': "extract_error_msg (JObj kv) = Inr (JStr (spec_error_message kv))"
        by simp
      from None have h: "has_denied_code (JObj kv) = Inr (spec_error_code_denied kv)"
        by (simp add: has_denied_code_fault)
      from Some s None classify_rules [OF e' h] show ?thesis by (simp add: envelope_fault_def)
    next
      case f: (Some ex)
      then have h: "has_denied_code (JObj kv) = Inl ex"
        by (simp add: has_denied_code_fault)
      from Some s f show ?thesis
        by (simp add: envelope_fault_def classify_def e h json_get_obj Let_def)
    qed
  next
    case False
    then have ns: "\<And>s. v \<noteq> JStr s" by blast
    from False Some have "envelope_fault kv = Some (no_attribute v ''lower'')"
      by (cases v) (simp_all add: envelope_fault_def)
    with classify_lower_raises [OF e ns] show ?thesis by simp
  qed
qed

lemma long_denied_not_plain: "long_denied_body \<noteq> civic_plain_body"
proof
  assume "long_denied_body = civic_plain_body"
  then have "length long_denied_body = length civic_plain_body" by simp
  then show False by (simp add: long_denied_length civic_plain_body_def)
qed

lemma truncated_denied_not_plain:
  "take 1000 long_denied_body @ truncated_marker \<noteq> civic_plain_body"
proof
  assume "take 1000 long_denied_body @ truncated_marker = civic_plain_body"
  then have "length (take 1000 long_denied_body @ truncated_marker) = length civic_plain_body"
    by simp
  then show False by (simp add: long_denied_length civic_plain_body_def truncated_marker_def)
qed

lemma classify_civic_plain: "classify civic_plain_json = Inr (True, None)"
  unfolding civic_plain_json_def by code_simp

lemma accessible_whatever_verbose:
  assumes "json_loads response_data = Some json_response"
    and "classify json_response = Inr (True, diagnostic)"
  shows "accessible (test_api json_loads info api_key verbose
                       (Response st hdrs (Inr response_data))) = True"
  using assms
  by (cases "json_loads (take 1000 response_data @ truncated_marker)")
     (simp_all add: test_api_def classified_def Let_def)

lemma scenario_counts:
  assumes "api_paid paid_api" and "\<not> api_paid free_api"
    and "json_loads denied_body
           = Some (JObj [(''status'', JStr ''REQUEST_DENIED''),
                         (''error_message'', JStr ''API key not valid'')])"
    and "json_loads plain_body = Some civic_plain_json"
    and "verbose \<Longrightarrow> 1000 < length denied_body
           \<Longrightarrow> json_loads (take 1000 denied_body @ truncated_marker) \<noteq> None"
  shows "total_tested (main_output json_loads api_key verbose
           [(paid_api, Response 200 hdrs (Inr denied_body)),
            (free_api, Response 200 hdrs' (Inr plain_body))]) = 2"
    and "accessible_paid_services (main_output json_loads api_key verbose
           [(paid_api, Response 200 hdrs (Inr denied_body)),
            (free_api, Response 200 hdrs' (Inr plain_body))]) = 0"
    and "accessible_free_services (main_output json_loads api_key verbose
           [(paid_api, Response 200 hdrs (Inr denied_body)),
            (free_api, Response 200 hdrs' (Inr plain_body))]) = 1"
proof -
  have q: "\<not> (False \<and> 1000 < length denied_body)" by simp
  have quiet: "\<not> accessible (test_api json_loads paid_api api_key False
                 (Response 200 hdrs (Inr denied_body)))"
    by (simp add: test_api_response_accessible
          [where json_loads = json_loads and response_data = denied_body, OF assms(3) q]
        classify_denied_example)
  have a1: "\<not> accessible (test_api json_loads paid_api api_key verbose
                 (Response 200 hdrs (Inr denied_body)))"
  proof (cases verbose)
    case True
    have "accessible (test_api json_loads paid_api api_key True
                 (Response 200 hdrs (Inr denied_body)))
          = accessible (test_api json_loads paid_api api_key False
                 (Response 200 hdrs (Inr denied_body)))"
      by (rule verdict_independent_of_verbose) (use assms(5) True in auto)
    with quiet True show ?thesis by simp
  next
    case False
    with quiet show ?thesis by simp
  qed
  have a2: "accessible (test_api json_loads free_api api_key verbose
                 (Response 200 hdrs' (Inr plain_body)))"
    using accessible_whatever_verbose
      [where json_loads = json_loads and response_data = plain_body,
       OF assms(4) classify_civic_plain]
    by simp
  show "total_tested (main_output json_loads api_key verbose
           [(paid_api, Response 200 hdrs (Inr denied_body)),
            (free_api, Response 200 hdrs' (Inr plain_body))]) = 2"
    and "accessible_paid_services (main_output json_loads api_key verbose
           [(paid_api, Response 200 hdrs (Inr denied_body)),
            (free_api, Response 200 hdrs' (Inr plain_body))]) = 0"
    and "accessible_free_services (main_output json_loads api_key verbose
           [(paid_api, Response 200 hdrs (Inr denied_body)),
            (free_api, Response 200 hdrs' (Inr plain_body))]) = 1"
    by (simp_all add: main_output_def probe_loop_acc a1 a2 test_api_paid assms(1,2))
qed

section \<open>The claims\<close>

text \<open>
  C4. A response with a status outside 2xx reaches \<open>test_api\<close> as an \<open>HTTPError\<close>. Whatever
  its body is (valid JSON, invalid JSON, or unreadable) and whatever \<open>json.loads\<close> makes
  of it, the probe is classified as denied: \<open>accessible\<close> is false, and the recorded status
  is the error's code.
\<close>

theorem http_error_always_denied:
  "accessible (test_api json_loads info api_key verbose (HTTPError code str_e hdrs rd)) = False
   \<and> status (test_api json_loads info api_key verbose (HTTPError code str_e hdrs rd))
       = Some code"
  by (simp add: test_api_def Let_def split: sum.splits option.splits)

theorem http_error_always_denied_witness:
  "accessible (test_api
      (loads_only ''{\"error\": {\"code\": 403, \"message\": \"The caller does not have permission\"}}''
         (JObj [(''error'', JObj [(''code'', JInt 403),
                  (''message'', JStr ''The caller does not have permission'')])]))
      geocoding_api ''AIzaSyA1234567890abcdefXYZW'' True
      (HTTPError 403 ''HTTP Error 403: Forbidden'' []
         (Inr ''{\"error\": {\"code\": 403, \"message\": \"The caller does not have permission\"}}'')))
     = False"
  using http_error_always_denied by simp

text \<open>
  C5 (as amended). When no response is obtained, \<open>urlopen\<close> raises \<open>URLError\<close>: the probe is
  denied whatever the entry's paid flag is, and the diagnostic is the text
  \<open>Connection error: \<close> followed by the failure's reason. A failure that surfaces as any
  other exception is denied too, with the exception's own text as the diagnostic.
\<close>

theorem transport_failure_denied:
  "accessible (test_api json_loads (info\<lparr>api_paid := is_paid\<rparr>) api_key verbose
                 (URLError reason)) = False
   \<and> error (test_api json_loads (info\<lparr>api_paid := is_paid\<rparr>) api_key verbose
              (URLError reason))
       = Some (''Connection error: '' @ reason)
   \<and> accessible (test_api json_loads (info\<lparr>api_paid := is_paid\<rparr>) api_key verbose
                   (OtherException str_e)) = False
   \<and> error (test_api json_loads (info\<lparr>api_paid := is_paid\<rparr>) api_key verbose
              (OtherException str_e)) = Some str_e"
  by (simp add: test_api_def Let_def)

text \<open>
  C5 as the specification states it fails: for a refused connection the diagnostic is
  not the reason itself.
\<close>

theorem transport_failure_diagnostic_counterexample:
  "error (test_api (\<lambda>s. None) civic_api ''AIzaSyA1234567890abcdefXYZW'' False
            (URLError ''[Errno 111] Connection refused''))
     \<noteq> Some ''[Errno 111] Connection refused''"
  by (simp add: test_api_def Let_def)

theorem transport_failure_denied_witness:
  "accessible (test_api (\<lambda>s. None) civic_api ''AIzaSyA1234567890abcdefXYZW'' False
            (URLError ''[Errno 111] Connection refused'')) = False
   \<and> error (test_api (\<lambda>s. None) civic_api ''AIzaSyA1234567890abcdefXYZW'' False
            (URLError ''[Errno 111] Connection refused''))
       = Some ''Connection error: [Errno 111] Connection refused''"
  using transport_failure_denied [where json_loads = "\<lambda>s. None" and info = civic_api
      and is_paid = False and api_key = "''AIzaSyA1234567890abcdefXYZW''" and verbose = False
      and reason = "''[Errno 111] Connection refused''"]
  by (simp add: civic_api_def)

text \<open>
  C10. The paid flag of an entry is copied into the result and read by no rule: two
  entries that differ only in the flag get, for the same outcome, results that differ
  only in \<open>paid\<close>; in particular \<open>accessible\<close> and \<open>error\<close> are the same.
\<close>

theorem paid_flag_only_copied:
  "test_api json_loads (info\<lparr>api_paid := is_paid\<rparr>) api_key verbose outcome
     = (test_api json_loads info api_key verbose outcome)\<lparr>paid := is_paid\<rparr>
   \<and> accessible (test_api json_loads (info\<lparr>api_paid := is_paid\<rparr>) api_key verbose outcome)
       = accessible (test_api json_loads info api_key verbose outcome)
   \<and> error (test_api json_loads (info\<lparr>api_paid := is_paid\<rparr>) api_key verbose outcome)
       = error (test_api json_loads info api_key verbose outcome)"
proof -
  have "test_api json_loads (info\<lparr>api_paid := is_paid\<rparr>) api_key verbose outcome
     = (test_api json_loads info api_key verbose outcome)\<lparr>paid := is_paid\<rparr>"
    by (cases outcome)
       (simp_all add: test_api_def classified_def Let_def request_method_paid
          request_body_paid display_url_paid split: sum.splits option.splits prod.splits)
  then show ?thesis by simp
qed

theorem paid_flag_only_copied_witness:
  "accessible (test_api
      (loads_only ''{\"status\": \"REQUEST_DENIED\", \"error_message\": \"API key not valid\"}''
         (JObj [(''status'', JStr ''REQUEST_DENIED''),
                (''error_message'', JStr ''API key not valid'')]))
      (geocoding_api\<lparr>api_paid := False\<rparr>) ''AIzaSyA1234567890abcdefXYZW'' False
      (Response 200 []
         (Inr ''{\"status\": \"REQUEST_DENIED\", \"error_message\": \"API key not valid\"}'')))
   = accessible (test_api
      (loads_only ''{\"status\": \"REQUEST_DENIED\", \"error_message\": \"API key not valid\"}''
         (JObj [(''status'', JStr ''REQUEST_DENIED''),
                (''error_message'', JStr ''API key not valid'')]))
      geocoding_api ''AIzaSyA1234567890abcdefXYZW'' False
      (Response 200 []
         (Inr ''{\"status\": \"REQUEST_DENIED\", \"error_message\": \"API key not valid\"}'')))"
  using paid_flag_only_copied by blast

text \<open>
  C8, evaluated where it fails. For every sequence of probed entries the counts of the
  report are derived from the results: \<open>total_tested\<close> is the number of results, one per
  entry and in order; \<open>accessible_paid_services\<close> counts the results that are accessible and
  paid, \<open>accessible_free_services\<close> those that are accessible and not paid. The scenario of
  the specification (a paid entry answered 200 with status \<open>REQUEST_DENIED\<close> and message
  \<open>API key not valid\<close>, a free entry answered 200 with a plain JSON object) is meant to
  give the counts 2, 0 and 1. It does without verbose mode; in verbose mode, when the
  denial is the body longer than 1000 characters, the decoding of its truncated text
  raises, the paid probe is reported accessible, and the counts are 2, 1 and 1. By
  \<open>scenario_counts\<close> the counts are 2, 0 and 1 wherever that decoding does not raise.
\<close>

theorem summary_counts_verbose_scenario:
  "total_tested (main_output json_loads api_key verbose apis)
     = length (results (main_output json_loads api_key verbose apis))
   \<and> results (main_output json_loads api_key verbose apis)
       = map (\<lambda>(api, outcome). test_api json_loads api api_key verbose outcome) apis
   \<and> accessible_paid_services (main_output json_loads api_key verbose apis)
       = length (filter (\<lambda>r. accessible r \<and> paid r)
                   (results (main_output json_loads api_key verbose apis)))
   \<and> accessible_free_services (main_output json_loads api_key verbose apis)
       = length (filter (\<lambda>r. accessible r \<and> \<not> paid r)
                   (results (main_output json_loads api_key verbose apis)))
   \<and> total_tested (main_output
         (loads_table [(long_denied_body, long_denied_json),
                      (civic_plain_body, civic_plain_json)])
         ''AIzaSyA1234567890abcdefXYZW'' False
         [(geocoding_api, Response 200 [] (Inr long_denied_body)),
          (civic_api, Response 200 [] (Inr civic_plain_body))]) = 2
   \<and> accessible_paid_services (main_output
         (loads_table [(long_denied_body, long_denied_json),
                      (civic_plain_body, civic_plain_json)])
         ''AIzaSyA1234567890abcdefXYZW'' False
         [(geocoding_api, Response 200 [] (Inr long_denied_body)),
          (civic_api, Response 200 [] (Inr civic_plain_body))]) = 0
   \<and> accessible_free_services (main_output
         (loads_table [(long_denied_body, long_denied_json),
                      (civic_plain_body, civic_plain_json)])
         ''AIzaSyA1234567890abcdefXYZW'' False
         [(geocoding_api, Response 200 [] (Inr long_denied_body)),
          (civic_api, Response 200 [] (Inr civic_plain_body))]) = 1
   \<and> total_tested (main_output
         (loads_table [(long_denied_body, long_denied_json),
                      (civic_plain_body, civic_plain_json)])
         ''AIzaSyA1234567890abcdefXYZW'' True
         [(geocoding_api, Response 200 [] (Inr long_denied_body)),
          (civic_api, Response 200 [] (Inr civic_plain_body))]) = 2
   \<and> accessible_paid_services (main_output
         (loads_table [(long_denied_body, long_denied_json),
                      (civic_plain_body, civic_plain_json)])
         ''AIzaSyA1234567890abcdefXYZW'' True
         [(geocoding_api, Response 200 [] (Inr long_denied_body)),
          (civic_api, Response 200 [] (Inr civic_plain_body))]) = 1
   \<and> accessible_free_services (main_output
         (loads_table [(long_denied_body, long_denied_json),
                      (civic_plain_body, civic_plain_json)])
         ''AIzaSyA1234567890abcdefXYZW'' True
         [(geocoding_api, Response 200 [] (Inr long_denied_body)),
          (civic_api, Response 200 [] (Inr civic_plain_body))]) = 1"
proof -
  let ?loads = "loads_table [(long_denied_body, long_denied_json),
                             (civic_plain_body, civic_plain_json)]"
  have general: "total_tested (main_output json_loads api_key verbose apis)
     = length (results (main_output json_loads api_key verbose apis))
   \<and> results (main_output json_loads api_key verbose apis)
       = map (\<lambda>(api, outcome). test_api json_loads api api_key verbose outcome) apis
   \<and> accessible_paid_services (main_output json_loads api_key verbose apis)
       = length (filter (\<lambda>r. accessible r \<and> paid r)
                   (results (main_output json_loads api_key verbose apis)))
   \<and> accessible_free_services (main_output json_loads api_key verbose apis)
       = length (filter (\<lambda>r. accessible r \<and> \<not> paid r)
                   (results (main_output json_loads api_key verbose apis)))"
    by (simp add: main_output_def probe_loop_acc)
  have d: "?loads long_denied_body = Some long_denied_json"
    by (simp add: loads_table_def)
  have p: "?loads civic_plain_body = Some civic_plain_json"
    using long_denied_not_plain by (simp add: loads_table_def)
  have n: "1000 < length long_denied_body" by (simp add: long_denied_length)
  have t: "?loads (take 1000 long_denied_body @ truncated_marker) = None"
    using truncated_text_differs [of long_denied_body] truncated_denied_not_plain
    by (simp add: long_denied_length loads_table_def)
  have q: "\<not> (False \<and> 1000 < length long_denied_body)" by simp
  have quiet: "\<not> accessible (test_api ?loads geocoding_api ''AIzaSyA1234567890abcdefXYZW'' False
                 (Response 200 [] (Inr long_denied_body)))"
    by (simp add: test_api_response_accessible
          [where json_loads = ?loads and response_data = long_denied_body, OF d q]
        classify_long_denied)
  have loud: "accessible (test_api ?loads geocoding_api ''AIzaSyA1234567890abcdefXYZW'' True
                 (Response 200 [] (Inr long_denied_body)))"
    by (simp add: test_api_truncation
          [where json_loads = ?loads and response_data = long_denied_body, OF d n t])
  have free: "accessible (test_api ?loads civic_api ''AIzaSyA1234567890abcdefXYZW'' verbose
                 (Response 200 [] (Inr civic_plain_body)))" for verbose
    using accessible_whatever_verbose
      [where json_loads = ?loads and response_data = civic_plain_body,
       OF p classify_civic_plain]
    by simp
  have pg: "api_paid geocoding_api" and pc: "\<not> api_paid civic_api"
    by (simp_all add: geocoding_api_def civic_api_def)
  have scenario_quiet: "total_tested (main_output ?loads ''AIzaSyA1234567890abcdefXYZW'' False
         [(geocoding_api, Response 200 [] (Inr long_denied_body)),
          (civic_api, Response 200 [] (Inr civic_plain_body))]) = 2
     \<and> accessible_paid_services (main_output ?loads ''AIzaSyA1234567890abcdefXYZW'' False
         [(geocoding_api, Response 200 [] (Inr long_denied_body)),
          (civic_api, Response 200 [] (Inr civic_plain_body))]) = 0
     \<and> accessible_free_services (main_output ?loads ''AIzaSyA1234567890abcdefXYZW'' False
         [(geocoding_api, Response 200 [] (Inr long_denied_body)),
          (civic_api, Response 200 [] (Inr civic_plain_body))]) = 1"
    by (simp add: main_output_def probe_loop_acc quiet free test_api_paid pg pc)
  have scenario_loud: "total_tested (main_output ?loads ''AIzaSyA1234567890abcdefXYZW'' True
         [(geocoding_api, Response 200 [] (Inr long_denied_body)),
          (civic_api, Response 200 [] (Inr civic_plain_body))]) = 2
     \<and> accessible_paid_services (main_output ?loads ''AIzaSyA1234567890abcdefXYZW'' True
         [(geocoding_api, Response 200 [] (Inr long_denied_body)),
          (civic_api, Response 200 [] (Inr civic_plain_body))]) = 1
     \<and> accessible_free_services (main_output ?loads ''AIzaSyA1234567890abcdefXYZW'' True
         [(geocoding_api, Response 200 [] (Inr long_denied_body)),
          (civic_api, Response 200 [] (Inr civic_plain_body))]) = 1"
    by (simp add: main_output_def probe_loop_acc loud free test_api_paid pg pc)
  from general scenario_quiet scenario_loud show ?thesis by blast
qed

text \<open>
  C6. On the HTTP-error path, when the body decodes to an object whose \<open>error\<close> is an object
  with a string \<open>message\<close>, the diagnostic is chosen by substring checks on the message, in
  this order: it contains \<open>has not been used\<close> or \<open>is not enabled\<close>: \<open>API not enabled for
  this project\<close>; else it contains \<open>API key not valid\<close> or, lower-cased, \<open>invalid\<close>: \<open>Invalid
  API key\<close>; else, lower-cased, it contains \<open>denied\<close>: \<open>Access denied\<close>; otherwise the message
  itself. The first rule that matches decides.
\<close>

theorem http_error_diagnostic_refined:
  assumes "json_loads error_body = Some (JObj kv)"
    and "map_of kv ''error'' = Some (JObj ekv)"
    and "map_of ekv ''message'' = Some (JStr m)"
  shows "error (test_api json_loads info api_key verbose
                  (HTTPError code str_e hdrs (Inr error_body)))
         = Some (if contains ''has not been used'' m \<or> contains ''is not enabled'' m
                 then ''API not enabled for this project''
                 else if contains ''API key not valid'' m \<or> contains ''invalid'' (lower m)
                 then ''Invalid API key''
                 else if contains ''denied'' (lower m)
                 then ''Access denied''
                 else m)"
proof -
  have d: "http_error_diagnostic (JObj kv) str_e
         = Inr (if contains ''has not been used'' m \<or> contains ''is not enabled'' m
                 then ''API not enabled for this project''
                 else if contains ''API key not valid'' m \<or> contains ''invalid'' (lower m)
                 then ''Invalid API key''
                 else if contains ''denied'' (lower m)
                 then ''Access denied''
                 else m)"
    using assms(2,3)
    by (cases "contains ''has not been used'' m"; cases "contains ''is not enabled'' m";
        cases "contains ''API key not valid'' m")
       (simp_all add: http_error_diagnostic_def py_in_def py_getitem_def json_get_obj)
  show ?thesis
    using assms(1) by (simp add: test_api_def Let_def d)
qed

theorem http_error_diagnostic_refined_witness:
  "error (test_api
      (loads_only ''{\"error\": {\"code\": 400, \"message\": \"API key not valid. Access denied.\"}}''
         (JObj [(''error'', JObj [(''code'', JInt 400),
                  (''message'', JStr ''API key not valid. Access denied.'')])]))
      geocoding_api ''AIzaSyA1234567890abcdefXYZW'' False
      (HTTPError 400 ''HTTP Error 400: Bad Request'' []
         (Inr ''{\"error\": {\"code\": 400, \"message\": \"API key not valid. Access denied.\"}}'')))
    = Some ''Invalid API key''"
proof -
  have l: "loads_only ''{\"error\": {\"code\": 400, \"message\": \"API key not valid. Access denied.\"}}''
         (JObj [(''error'', JObj [(''code'', JInt 400),
                  (''message'', JStr ''API key not valid. Access denied.'')])])
         ''{\"error\": {\"code\": 400, \"message\": \"API key not valid. Access denied.\"}}''
       = Some (JObj [(''error'', JObj [(''code'', JInt 400),
                  (''message'', JStr ''API key not valid. Access denied.'')])])"
    by (simp add: loads_only_def)
  have e: "map_of [(''error'', JObj [(''code'', JInt 400),
                  (''message'', JStr ''API key not valid. Access denied.'')])] ''error''
       = Some (JObj [(''code'', JInt 400),
                  (''message'', JStr ''API key not valid. Access denied.'')])"
    by simp
  have m: "map_of [(''code'', JInt 400),
                  (''message'', JStr ''API key not valid. Access denied.'')] ''message''
       = Some (JStr ''API key not valid. Access denied.'')"
    by simp
  have c1: "\<not> contains ''has not been used'' ''API key not valid. Access denied.''"
    and c2: "\<not> contains ''is not enabled'' ''API key not valid. Access denied.''"
    and c3: "contains ''API key not valid'' ''API key not valid. Access denied.''"
    by code_simp+
  show ?thesis
    using http_error_diagnostic_refined [where json_loads =
        "loads_only ''{\"error\": {\"code\": 400, \"message\": \"API key not valid. Access denied.\"}}''
           (JObj [(''error'', JObj [(''code'', JInt 400),
                    (''message'', JStr ''API key not valid. Access denied.'')])])", OF l e m]
    by (simp only: c1 c2 c3 simp_thms if_True if_False)
qed


text \<open>
  C7 (as amended). In verbose mode, whatever the outcome, the request trace holds the
  method, the body and a URL that carries the masked form of the key in the place of the
  key: as it is after \<open>?key=\<close> for a POST, URL-encoded among the query parameters for a GET.
  The masked form keeps the first 8 and the last 4 characters of the key joined by \<open>...\<close>
  when the key is longer than 12 characters, and is \<open>***\<close> otherwise. Without verbose mode
  there is no request trace. A key longer than 15 characters does not occur in its masked
  form, and the only keys that occur in \<open>***\<close> are the empty key and the keys of one, two
  or three asterisks.
\<close>

theorem trace_shows_masked_key:
  "request (test_api json_loads info api_key True outcome)
     = Some \<lparr>req_method = request_method info,
             req_url =
               (if request_method info = ''GET''
                then api_url info @ ''?'' @
                     urlencode (AList.update ''key''
                       (if 12 < length api_key
                        then take 8 api_key @ ''...'' @ drop (length api_key - 4) api_key
                        else ''***'')
                       (case api_params info of None \<Rightarrow> [] | Some ps \<Rightarrow> ps))
                else api_url info @ ''?key='' @
                       (if 12 < length api_key
                        then take 8 api_key @ ''...'' @ drop (length api_key - 4) api_key
                        else ''***'')),
             req_body = request_body info\<rparr>
   \<and> request (test_api json_loads info api_key False outcome) = None
   \<and> (15 < length api_key \<longrightarrow>
        \<not> contains api_key (take 8 api_key @ ''...'' @ drop (length api_key - 4) api_key))
   \<and> (contains api_key ''***'' \<longrightarrow>
        api_key = [] \<or> api_key = ''*'' \<or> api_key = ''**'' \<or> api_key = ''***'')"
proof -
  have "\<not> contains api_key (take 8 api_key @ ''...'' @ drop (length api_key - 4) api_key)"
    if "15 < length api_key"
  proof
    assume "contains api_key (take 8 api_key @ ''...'' @ drop (length api_key - 4) api_key)"
    from contains_length [OF this] that show False by simp
  qed
  with short_key_in_stars [of api_key] show ?thesis
    by (simp add: request_trace_verbose request_trace_quiet display_url_def masked_key_def
          request_params_def)
qed

text \<open>
  C7 as the specification states it fails: the key \<open>***\<close> is at most 12 characters long,
  so the logged URL of a POST probe ends in \<open>?key=***\<close>, which is the URL requested, with
  the key in clear.
\<close>

theorem short_key_shown_in_clear_counterexample:
  "(case request (test_api (\<lambda>s. None) speech_api ''***'' True (URLError ''timed out'')) of
      None \<Rightarrow> False
    | Some t \<Rightarrow> req_url t = full_url speech_api ''***'' \<and> contains ''***'' (req_url t))"
  by code_simp

theorem trace_shows_masked_key_witness:
  "15 < length ''AIzaSyA1234567890abcdefXYZW''
   \<and> \<not> contains ''AIzaSyA1234567890abcdefXYZW'' ''AIzaSyA1...XYZW''
   \<and> map_option req_url
        (request (test_api (\<lambda>s. None) geocoding_api ''AIzaSyA1234567890abcdefXYZW'' True
                    (URLError ''timed out'')))
       = Some ''https://maps.googleapis.com/maps/api/geocode/json?address=1600+Amphitheatre+Parkway&key=AIzaSyA1...XYZW''"
proof -
  have e: "(if request_method geocoding_api = ''GET''
            then api_url geocoding_api @ ''?'' @
                 urlencode (AList.update ''key''
                   (if 12 < length ''AIzaSyA1234567890abcdefXYZW''
                    then take 8 ''AIzaSyA1234567890abcdefXYZW'' @ ''...'' @
                         drop (length ''AIzaSyA1234567890abcdefXYZW'' - 4)
                           ''AIzaSyA1234567890abcdefXYZW''
                    else ''***'')
                   (case api_params geocoding_api of None \<Rightarrow> [] | Some ps \<Rightarrow> ps))
            else api_url geocoding_api @ ''?key='' @
                   (if 12 < length ''AIzaSyA1234567890abcdefXYZW''
                    then take 8 ''AIzaSyA1234567890abcdefXYZW'' @ ''...'' @
                         drop (length ''AIzaSyA1234567890abcdefXYZW'' - 4)
                           ''AIzaSyA1234567890abcdefXYZW''
                    else ''***''))
         = ''https://maps.googleapis.com/maps/api/geocode/json?address=1600+Amphitheatre+Parkway&key=AIzaSyA1...XYZW''"
    by code_simp
  have m: "take 8 ''AIzaSyA1234567890abcdefXYZW'' @ ''...'' @
             drop (length ''AIzaSyA1234567890abcdefXYZW'' - 4) ''AIzaSyA1234567890abcdefXYZW''
           = ''AIzaSyA1...XYZW''"
    by simp
  note th = trace_shows_masked_key [where json_loads = "\<lambda>s. None" and info = geocoding_api
        and api_key = "''AIzaSyA1234567890abcdefXYZW''" and outcome = "URLError ''timed out''",
        unfolded e, unfolded m]
  from th have r: "request (test_api (\<lambda>s. None) geocoding_api ''AIzaSyA1234567890abcdefXYZW''
                      True (URLError ''timed out''))
      = Some \<lparr>req_method = request_method geocoding_api,
              req_url = ''https://maps.googleapis.com/maps/api/geocode/json?address=1600+Amphitheatre+Parkway&key=AIzaSyA1...XYZW'',
              req_body = request_body geocoding_api\<rparr>"
    by (rule conjunct1)
  have l: "15 < length ''AIzaSyA1234567890abcdefXYZW''" by simp
  from th l have c: "\<not> contains ''AIzaSyA1234567890abcdefXYZW'' ''AIzaSyA1...XYZW''"
    by blast
  from l c r show ?thesis by simp
qed

text \<open>
  C2, evaluated where it fails. The verdict is meant to be the same with and without
  verbose mode. For a 2xx body longer than 1000 characters the verbose branch decodes the
  first 1000 characters followed by the marker of line 259, which is no JSON text; the
  \<open>JSONDecodeError\<close> is caught by the handler for bodies that are not JSON, and the probe
  is reported accessible with no diagnostic. On the padded denial the verdict is denied
  without verbose mode and accessible with it. This is the only way the flag reaches the
  verdict: by \<open>verdict_independent_of_verbose\<close>, \<open>accessible\<close> and \<open>error\<close> are the same with
  and without verbose mode for every outcome where that decoding does not raise.
\<close>

theorem verbose_changes_verdict:
  "accessible (test_api (loads_only long_denied_body long_denied_json) geocoding_api
                 ''AIzaSyA1234567890abcdefXYZW'' False
                 (Response 200 [] (Inr long_denied_body))) = False
   \<and> error (test_api (loads_only long_denied_body long_denied_json) geocoding_api
                 ''AIzaSyA1234567890abcdefXYZW'' False
                 (Response 200 [] (Inr long_denied_body))) = Some ''API key not valid''
   \<and> accessible (test_api (loads_only long_denied_body long_denied_json) geocoding_api
                 ''AIzaSyA1234567890abcdefXYZW'' True
                 (Response 200 [] (Inr long_denied_body))) = True
   \<and> error (test_api (loads_only long_denied_body long_denied_json) geocoding_api
                 ''AIzaSyA1234567890abcdefXYZW'' True
                 (Response 200 [] (Inr long_denied_body))) = None"
proof -
  have l: "loads_only long_denied_body long_denied_json long_denied_body = Some long_denied_json"
    by (simp add: loads_only_def)
  have n: "1000 < length long_denied_body"
    by (simp add: long_denied_length)
  have t: "loads_only long_denied_body long_denied_json
             (take 1000 long_denied_body @ truncated_marker) = None"
    using truncated_text_differs [of long_denied_body]
    by (simp add: loads_only_def long_denied_length)
  have q: "\<not> (False \<and> 1000 < length long_denied_body)" by simp
  show ?thesis
    by (simp add: test_api_response_accessible
          [where json_loads = "loads_only long_denied_body long_denied_json"
             and response_data = long_denied_body, OF l q]
        test_api_response_error
          [where json_loads = "loads_only long_denied_body long_denied_json"
             and response_data = long_denied_body, OF l q]
        test_api_truncation
          [where json_loads = "loads_only long_denied_body long_denied_json"
             and response_data = long_denied_body, OF l n t]
        classify_long_denied)
qed

text \<open>
  C9, evaluated where it fails. A 2xx body that decodes to a value that is no object is
  meant to be reported as denied, with the text of the \<open>AttributeError\<close> as diagnostic. This
  holds without verbose mode; in verbose mode, on the array longer than 1000 characters,
  the decoding of the truncated text raises first and the probe is reported accessible.
\<close>

theorem verbose_makes_non_object_accessible:
  "accessible (test_api (loads_only long_array_body long_array_json) geocoding_api
                 ''AIzaSyA1234567890abcdefXYZW'' False
                 (Response 200 [] (Inr long_array_body))) = False
   \<and> error (test_api (loads_only long_array_body long_array_json) geocoding_api
                 ''AIzaSyA1234567890abcdefXYZW'' False
                 (Response 200 [] (Inr long_array_body)))
       = Some (str_exc (no_attribute long_array_json ''get''))
   \<and> accessible (test_api (loads_only long_array_body long_array_json) geocoding_api
                 ''AIzaSyA1234567890abcdefXYZW'' True
                 (Response 200 [] (Inr long_array_body))) = True
   \<and> error (test_api (loads_only long_array_body long_array_json) geocoding_api
                 ''AIzaSyA1234567890abcdefXYZW'' True
                 (Response 200 [] (Inr long_array_body))) = None"
proof -
  have l: "loads_only long_array_body long_array_json long_array_body = Some long_array_json"
    by (simp add: loads_only_def)
  have n: "1000 < length long_array_body"
    by (simp add: long_array_length)
  have t: "loads_only long_array_body long_array_json
             (take 1000 long_array_body @ truncated_marker) = None"
    using truncated_text_differs [of long_array_body]
    by (simp add: loads_only_def long_array_length)
  have q: "\<not> (False \<and> 1000 < length long_array_body)" by simp
  have c: "classify long_array_json = Inl (no_attribute long_array_json ''get'')"
    by (rule classify_non_object) (simp add: long_array_json_def)
  show ?thesis
    by (simp add: test_api_response_accessible
          [where json_loads = "loads_only long_array_body long_array_json"
             and response_data = long_array_body, OF l q]
        test_api_response_error
          [where json_loads = "loads_only long_array_body long_array_json"
             and response_data = long_array_body, OF l q]
        test_api_truncation
          [where json_loads = "loads_only long_array_body long_array_json"
             and response_data = long_array_body, OF l n t]
        c)
qed

text \<open>
  C1 (as amended). For every 2xx response whose body decodes to a JSON object, and whose
  body is not both traced in verbose mode and longer than 1000 characters: when \<open>error\<close> is
  absent or an object, and the first truthy value among \<open>error_message\<close>, \<open>errorMessage\<close>
  and \<open>error.message\<close> is a string or there is none, the verdict and the diagnostic are
  those of the six rules, applied in their order, the first match deciding, with that
  string (or the empty string) as the message: an \<open>error\<close> object with code 401 or 403 is
  denied with the message or \<open>Access denied\<close>; status \<open>REQUEST_DENIED\<close> with a denial phrase
  is denied with the message or \<open>Request denied\<close>; status \<open>OVER_QUERY_LIMIT\<close> or
  \<open>RESOURCE_EXHAUSTED\<close> is accessible with \<open>Rate limited (but key has access): \<close> and the
  message; status \<open>REQUEST_DENIED\<close> without a denial phrase is accessible with \<open>Possibly
  accessible (unclear denial): \<close> and the message; a denial phrase under any other status
  is denied with the message; everything else is accessible with no diagnostic. For
  every other object the classification raises an \<open>AttributeError\<close> (for \<open>.lower\<close> on the
  first truthy value when it is no string, else for \<open>.get\<close> on the \<open>error\<close> that is no
  object), and the probe is denied with the text of that exception.
\<close>

theorem classification_priority_rules:
  assumes "json_loads response_data = Some (JObj kv)"
    and "\<not> (verbose \<and> 1000 < length response_data)"
  shows "(accessible (test_api json_loads info api_key verbose
                        (Response st hdrs (Inr response_data))),
          error (test_api json_loads info api_key verbose
                   (Response st hdrs (Inr response_data))))
         = (case envelope_fault kv of
              None \<Rightarrow> priority_rules kv
            | Some ex \<Rightarrow> (False, Some (str_exc ex)))"
proof (cases "envelope_fault kv")
  case None
  then show ?thesis
    by (cases "priority_rules kv")
       (simp add: test_api_response_accessible
            [where json_loads = json_loads and response_data = response_data, OF assms]
          test_api_response_error
            [where json_loads = json_loads and response_data = response_data, OF assms]
          classify_envelope)
next
  case (Some ex)
  then show ?thesis
    by (simp add: test_api_response_accessible
            [where json_loads = json_loads and response_data = response_data, OF assms]
          test_api_response_error
            [where json_loads = json_loads and response_data = response_data, OF assms]
          classify_envelope)
qed

text \<open>
  C1 as the specification states it fails on an object whose \<open>error\<close> is a string: no rule
  but the last applies, which makes the probe accessible with no diagnostic, while the
  code calls \<open>.get\<close> on the string, and the handler of line 354 reports the probe denied
  with the text of the \<open>AttributeError\<close>.
\<close>

theorem error_string_counterexample:
  "accessible (test_api (loads_only ''{\"error\": \"invalid_request\"}''
                  (JObj [(''error'', JStr ''invalid_request'')]))
                civic_api ''AIzaSyA1234567890abcdefXYZW'' False
                (Response 200 [] (Inr ''{\"error\": \"invalid_request\"}''))) = False
   \<and> error (test_api (loads_only ''{\"error\": \"invalid_request\"}''
                  (JObj [(''error'', JStr ''invalid_request'')]))
                civic_api ''AIzaSyA1234567890abcdefXYZW'' False
                (Response 200 [] (Inr ''{\"error\": \"invalid_request\"}'')))
       = Some (str_exc (no_attribute (JStr ''invalid_request'') ''get''))
   \<and> priority_rules [(''error'', JStr ''invalid_request'')] = (True, None)"
proof -
  have l: "loads_only ''{\"error\": \"invalid_request\"}''
             (JObj [(''error'', JStr ''invalid_request'')]) ''{\"error\": \"invalid_request\"}''
           = Some (JObj [(''error'', JStr ''invalid_request'')])"
    by (simp add: loads_only_def)
  have q: "\<not> (False \<and> 1000 < length ''{\"error\": \"invalid_request\"}'')" by simp
  have c: "classify (JObj [(''error'', JStr ''invalid_request'')])
           = Inl (no_attribute (JStr ''invalid_request'') ''get'')"
    by code_simp
  have r: "priority_rules [(''error'', JStr ''invalid_request'')] = (True, None)"
    by code_simp
  show ?thesis
    by (simp add: test_api_response_accessible
          [where json_loads = "loads_only ''{\"error\": \"invalid_request\"}''
                  (JObj [(''error'', JStr ''invalid_request'')])"
             and response_data = "''{\"error\": \"invalid_request\"}''", OF l q]
        test_api_response_error
          [where json_loads = "loads_only ''{\"error\": \"invalid_request\"}''
                  (JObj [(''error'', JStr ''invalid_request'')])"
             and response_data = "''{\"error\": \"invalid_request\"}''", OF l q]
        c r)
qed

theorem classification_priority_rules_witness:
  "(accessible (test_api
       (loads_only ''{\"status\": \"REQUEST_DENIED\", \"error_message\": \"This API project is not authorized to use this API.\"}''
          (JObj [(''status'', JStr ''REQUEST_DENIED''),
                 (''error_message'', JStr ''This API project is not authorized to use this API.'')]))
       geocoding_api ''AIzaSyA1234567890abcdefXYZW'' True
       (Response 200 []
          (Inr ''{\"status\": \"REQUEST_DENIED\", \"error_message\": \"This API project is not authorized to use this API.\"}''))),
    error (test_api
       (loads_only ''{\"status\": \"REQUEST_DENIED\", \"error_message\": \"This API project is not authorized to use this API.\"}''
          (JObj [(''status'', JStr ''REQUEST_DENIED''),
                 (''error_message'', JStr ''This API project is not authorized to use this API.'')]))
       geocoding_api ''AIzaSyA1234567890abcdefXYZW'' True
       (Response 200 []
          (Inr ''{\"status\": \"REQUEST_DENIED\", \"error_message\": \"This API project is not authorized to use this API.\"}''))))
   = (False, Some ''This API project is not authorized to use this API.'')
   \<and> (accessible (test_api
          (loads_only ''{\"error_message\": 0}'' (JObj [(''error_message'', JInt 0)]))
          civic_api ''AIzaSyA1234567890abcdefXYZW'' False
          (Response 200 [] (Inr ''{\"error_message\": 0}''))),
        error (test_api
          (loads_only ''{\"error_message\": 0}'' (JObj [(''error_message'', JInt 0)]))
          civic_api ''AIzaSyA1234567890abcdefXYZW'' False
          (Response 200 [] (Inr ''{\"error_message\": 0}''))))
       = (True, None)
   \<and> (accessible (test_api
          (loads_only ''{\"error_message\": 5}'' (JObj [(''error_message'', JInt 5)]))
          civic_api ''AIzaSyA1234567890abcdefXYZW'' False
          (Response 200 [] (Inr ''{\"error_message\": 5}''))),
        error (test_api
          (loads_only ''{\"error_message\": 5}'' (JObj [(''error_message'', JInt 5)]))
          civic_api ''AIzaSyA1234567890abcdefXYZW'' False
          (Response 200 [] (Inr ''{\"error_message\": 5}''))))
       = (False, Some (str_exc (no_attribute (JInt 5) ''lower'')))"
proof -
  have l1: "loads_only ''{\"status\": \"REQUEST_DENIED\", \"error_message\": \"This API project is not authorized to use this API.\"}''
          (JObj [(''status'', JStr ''REQUEST_DENIED''),
                 (''error_message'', JStr ''This API project is not authorized to use this API.'')])
          ''{\"status\": \"REQUEST_DENIED\", \"error_message\": \"This API project is not authorized to use this API.\"}''
        = Some (JObj [(''status'', JStr ''REQUEST_DENIED''),
                 (''error_message'', JStr ''This API project is not authorized to use this API.'')])"
    by (simp add: loads_only_def)
  have q1: "\<not> (True \<and> 1000 < length ''{\"status\": \"REQUEST_DENIED\", \"error_message\": \"This API project is not authorized to use this API.\"}'')"
    by simp
  have f1: "envelope_fault [(''status'', JStr ''REQUEST_DENIED''),
                 (''error_message'', JStr ''This API project is not authorized to use this API.'')]
            = None"
    by code_simp
  have r1: "priority_rules [(''status'', JStr ''REQUEST_DENIED''),
                 (''error_message'', JStr ''This API project is not authorized to use this API.'')]
           = (False, Some ''This API project is not authorized to use this API.'')"
    by code_simp
  have l2: "loads_only ''{\"error_message\": 0}'' (JObj [(''error_message'', JInt 0)])
              ''{\"error_message\": 0}'' = Some (JObj [(''error_message'', JInt 0)])"
    by (simp add: loads_only_def)
  have q2: "\<not> (False \<and> 1000 < length ''{\"error_message\": 0}'')" by simp
  have f2: "envelope_fault [(''error_message'', JInt 0)] = None" by code_simp
  have r2: "priority_rules [(''error_message'', JInt 0)] = (True, None)" by code_simp
  have l3: "loads_only ''{\"error_message\": 5}'' (JObj [(''error_message'', JInt 5)])
              ''{\"error_message\": 5}'' = Some (JObj [(''error_message'', JInt 5)])"
    by (simp add: loads_only_def)
  have q3: "\<not> (False \<and> 1000 < length ''{\"error_message\": 5}'')" by simp
  have f3: "envelope_fault [(''error_message'', JInt 5)] = Some (no_attribute (JInt 5) ''lower'')"
    by code_simp
  note t1 = classification_priority_rules
      [where json_loads = "loads_only ''{\"status\": \"REQUEST_DENIED\", \"error_message\": \"This API project is not authorized to use this API.\"}''
          (JObj [(''status'', JStr ''REQUEST_DENIED''),
                 (''error_message'', JStr ''This API project is not authorized to use this API.'')])"
         and response_data = "''{\"status\": \"REQUEST_DENIED\", \"error_message\": \"This API project is not authorized to use this API.\"}''"
         and verbose = True, OF l1 q1, unfolded f1 r1 option.case]
  note t2 = classification_priority_rules
      [where json_loads = "loads_only ''{\"error_message\": 0}'' (JObj [(''error_message'', JInt 0)])"
         and response_data = "''{\"error_message\": 0}''" and verbose = False,
       OF l2 q2, unfolded f2 r2 option.case]
  note t3 = classification_priority_rules
      [where json_loads = "loads_only ''{\"error_message\": 5}'' (JObj [(''error_message'', JInt 5)])"
         and response_data = "''{\"error_message\": 5}''" and verbose = False,
       OF l3 q3, unfolded f3 option.case]
  from t1 t2 t3 show ?thesis by blast
qed

text \<open>
  C3 (as amended). For every 2xx response whose body decodes to a JSON object with a
  well-typed envelope and status \<open>OVER_QUERY_LIMIT\<close>, that has no \<open>error\<close> object with code
  401 or 403, and whose body is not both traced in verbose mode and longer than 1000
  characters: the probe is accessible, whatever denial phrase the message holds, and the
  diagnostic is \<open>Rate limited (but key has access): \<close> followed by the message.
\<close>

theorem over_query_limit_accessible:
  assumes "json_loads response_data = Some (JObj kv)"
    and "well_typed_envelope kv"
    and "\<not> (verbose \<and> 1000 < length response_data)"
    and "map_of kv ''status'' = Some (JStr ''OVER_QUERY_LIMIT'')"
    and "\<not> spec_error_code_denied kv"
  shows "accessible (test_api json_loads info api_key verbose
                       (Response st hdrs (Inr response_data))) = True
         \<and> error (test_api json_loads info api_key verbose
                     (Response st hdrs (Inr response_data)))
             = Some (''Rate limited (but key has access): '' @ spec_error_message kv)"
proof -
  from assms(4,5) have "priority_rules kv
      = (True, Some (''Rate limited (but key has access): '' @ spec_error_message kv))"
    by (simp add: priority_rules_def Let_def)
  then show ?thesis
    by (simp add: test_api_response_accessible
          [where json_loads = json_loads and response_data = response_data, OF assms(1,3)]
        test_api_response_error
          [where json_loads = json_loads and response_data = response_data, OF assms(1,3)]
        classify_well_typed [OF assms(2)])
qed

text \<open>
  C3 as the specification states it fails: the rule for an \<open>error\<close> object with code 403
  comes first, so a body with status \<open>OVER_QUERY_LIMIT\<close> and such an object is denied.
\<close>

theorem over_query_limit_with_403_counterexample:
  "accessible (test_api
       (loads_only ''{\"status\": \"OVER_QUERY_LIMIT\", \"error\": {\"code\": 403, \"message\": \"Quota exceeded\"}}''
          (JObj [(''status'', JStr ''OVER_QUERY_LIMIT''),
                 (''error'', JObj [(''code'', JInt 403), (''message'', JStr ''Quota exceeded'')])]))
       geocoding_api ''AIzaSyA1234567890abcdefXYZW'' False
       (Response 200 []
          (Inr ''{\"status\": \"OVER_QUERY_LIMIT\", \"error\": {\"code\": 403, \"message\": \"Quota exceeded\"}}'')))
   = False"
proof -
  have l: "loads_only ''{\"status\": \"OVER_QUERY_LIMIT\", \"error\": {\"code\": 403, \"message\": \"Quota exceeded\"}}''
          (JObj [(''status'', JStr ''OVER_QUERY_LIMIT''),
                 (''error'', JObj [(''code'', JInt 403), (''message'', JStr ''Quota exceeded'')])])
          ''{\"status\": \"OVER_QUERY_LIMIT\", \"error\": {\"code\": 403, \"message\": \"Quota exceeded\"}}''
        = Some (JObj [(''status'', JStr ''OVER_QUERY_LIMIT''),
                 (''error'', JObj [(''code'', JInt 403), (''message'', JStr ''Quota exceeded'')])])"
    by (simp add: loads_only_def)
  have q: "\<not> (False \<and> 1000 < length ''{\"status\": \"OVER_QUERY_LIMIT\", \"error\": {\"code\": 403, \"message\": \"Quota exceeded\"}}'')"
    by simp
  have c: "classify (JObj [(''status'', JStr ''OVER_QUERY_LIMIT''),
                 (''error'', JObj [(''code'', JInt 403), (''message'', JStr ''Quota exceeded'')])])
           = Inr (False, Some ''Quota exceeded'')"
    by code_simp
  show ?thesis
    by (simp add: test_api_response_accessible
          [where json_loads = "loads_only ''{\"status\": \"OVER_QUERY_LIMIT\", \"error\": {\"code\": 403, \"message\": \"Quota exceeded\"}}''
          (JObj [(''status'', JStr ''OVER_QUERY_LIMIT''),
                 (''error'', JObj [(''code'', JInt 403), (''message'', JStr ''Quota exceeded'')])])"
             and response_data = "''{\"status\": \"OVER_QUERY_LIMIT\", \"error\": {\"code\": 403, \"message\": \"Quota exceeded\"}}''", OF l q]
        c)
qed

theorem over_query_limit_accessible_witness:
  "accessible (test_api
       (loads_only ''{\"status\": \"OVER_QUERY_LIMIT\", \"error_message\": \"You must enable Billing on the Google Cloud Project\"}''
          (JObj [(''status'', JStr ''OVER_QUERY_LIMIT''),
                 (''error_message'', JStr ''You must enable Billing on the Google Cloud Project'')]))
       geocoding_api ''AIzaSyA1234567890abcdefXYZW'' False
       (Response 200 []
          (Inr ''{\"status\": \"OVER_QUERY_LIMIT\", \"error_message\": \"You must enable Billing on the Google Cloud Project\"}''))) = True
   \<and> error (test_api
       (loads_only ''{\"status\": \"OVER_QUERY_LIMIT\", \"error_message\": \"You must enable Billing on the Google Cloud Project\"}''
          (JObj [(''status'', JStr ''OVER_QUERY_LIMIT''),
                 (''error_message'', JStr ''You must enable Billing on the Google Cloud Project'')]))
       geocoding_api ''AIzaSyA1234567890abcdefXYZW'' False
       (Response 200 []
          (Inr ''{\"status\": \"OVER_QUERY_LIMIT\", \"error_message\": \"You must enable Billing on the Google Cloud Project\"}'')))
     = Some ''Rate limited (but key has access): You must enable Billing on the Google Cloud Project''
   \<and> is_denial_phrase ''You must enable Billing on the Google Cloud Project''"
proof -
  have l: "loads_only ''{\"status\": \"OVER_QUERY_LIMIT\", \"error_message\": \"You must enable Billing on the Google Cloud Project\"}''
          (JObj [(''status'', JStr ''OVER_QUERY_LIMIT''),
                 (''error_message'', JStr ''You must enable Billing on the Google Cloud Project'')])
          ''{\"status\": \"OVER_QUERY_LIMIT\", \"error_message\": \"You must enable Billing on the Google Cloud Project\"}''
        = Some (JObj [(''status'', JStr ''OVER_QUERY_LIMIT''),
                 (''error_message'', JStr ''You must enable Billing on the Google Cloud Project'')])"
    by (simp add: loads_only_def)
  have w: "well_typed_envelope [(''status'', JStr ''OVER_QUERY_LIMIT''),
                 (''error_message'', JStr ''You must enable Billing on the Google Cloud Project'')]"
    by code_simp
  have q: "\<not> (False \<and> 1000 < length ''{\"status\": \"OVER_QUERY_LIMIT\", \"error_message\": \"You must enable Billing on the Google Cloud Project\"}'')"
    by simp
  have s: "map_of [(''status'', JStr ''OVER_QUERY_LIMIT''),
                 (''error_message'', JStr ''You must enable Billing on the Google Cloud Project'')] ''status''
           = Some (JStr ''OVER_QUERY_LIMIT'')"
    by simp
  have n: "\<not> spec_error_code_denied [(''status'', JStr ''OVER_QUERY_LIMIT''),
                 (''error_message'', JStr ''You must enable Billing on the Google Cloud Project'')]"
    by code_simp
  have m: "spec_error_message [(''status'', JStr ''OVER_QUERY_LIMIT''),
                 (''error_message'', JStr ''You must enable Billing on the Google Cloud Project'')]
           = ''You must enable Billing on the Google Cloud Project''"
    by code_simp
  have d: "is_denial_phrase ''You must enable Billing on the Google Cloud Project''"
    by code_simp
  show ?thesis
    using over_query_limit_accessible
      [where json_loads = "loads_only ''{\"status\": \"OVER_QUERY_LIMIT\", \"error_message\": \"You must enable Billing on the Google Cloud Project\"}''
          (JObj [(''status'', JStr ''OVER_QUERY_LIMIT''),
                 (''error_message'', JStr ''You must enable Billing on the Google Cloud Project'')])"
         and response_data = "''{\"status\": \"OVER_QUERY_LIMIT\", \"error_message\": \"You must enable Billing on the Google Cloud Project\"}''"
         and verbose = False, OF l w q s n] d
    by (simp add: m)
qed

end
